theory Spec2Isabelle
  imports Main
begin

section \<open>Errors\<close>

text \<open>
  Every \<^verbatim>\<open>raise\<close> of \<^verbatim>\<open>skimage/feature/haar.py\<close> and every exception of the
  numpy calls it makes is a value of this type.
  \<^item> \<open>InvalidTopology tok valid\<close>: the \<^verbatim>\<open>ValueError\<close> of \<^verbatim>\<open>_validate_feature_type\<close>
    (line 33), whose message is formatted from the offending name and \<^verbatim>\<open>FEATURE_TYPE\<close>;
  \<^item> \<open>ShapeMismatch\<close>: the \<^verbatim>\<open>ValueError\<close> of line 200 (inconsistent sizes);
  \<^item> \<open>AttributeError\<close>: \<^verbatim>\<open>feature_type.shape\<close> on \<^verbatim>\<open>None\<close> or on a \<^verbatim>\<open>str\<close> (line 199);
  \<^item> \<open>NothingToStack\<close>: the \<^verbatim>\<open>ValueError\<close> of \<^verbatim>\<open>np.hstack\<close> and \<^verbatim>\<open>np.concatenate\<close>
    on an empty sequence (lines 90 and 194);
  \<^item> \<open>NothingToUnpack\<close>: the \<^verbatim>\<open>ValueError\<close> of unpacking an empty \<^verbatim>\<open>zip\<close> into two
    names (line 204);
  \<^item> \<open>IndexError\<close>: an index outside an array (the scatter of line 214, a lookup in
    the integral image);
  \<^item> \<open>WindowOutOfBounds\<close>: the error that spec sections 4.3 and 7 name for a window
    that does not fit in the integral image; no line of \<^verbatim>\<open>haar.py\<close> raises it.
\<close>

datatype error =
    InvalidTopology string "string list"
  | ShapeMismatch
  | AttributeError
  | NothingToStack
  | NothingToUnpack
  | IndexError
  | WindowOutOfBounds

section \<open>Feature-type registry\<close>

definition FEATURE_TYPE :: "string list" where
  "FEATURE_TYPE = [''type-2-x'', ''type-2-y'', ''type-3-x'', ''type-3-y'', ''type-4'']"

text \<open>
  The \<^verbatim>\<open>feature_type\<close> argument: \<^verbatim>\<open>None\<close>, one string, or a sequence of strings
  (a list, a tuple or an array of names). With coordinates (lines 199-215) \<open>Many\<close>
  stands for the array of labels that the docstring asks for.
\<close>

datatype feature_type_arg = Unspecified | Single string | Many "string list"

text \<open>The loop of lines 31-35: the first name outside the registry raises.\<close>

fun check_feature_types :: "string list \<Rightarrow> error + unit" where
  "check_feature_types [] = Inr ()"
| "check_feature_types (feat_t # rest) =
     (if feat_t \<notin> set FEATURE_TYPE then Inl (InvalidTopology feat_t FEATURE_TYPE)
      else check_feature_types rest)"

definition validate_feature_type :: "feature_type_arg \<Rightarrow> error + string list" where
  "validate_feature_type feature_type =
     (case feature_type of
        Unspecified \<Rightarrow> Inr FEATURE_TYPE
      | Single s \<Rightarrow>
          (case check_feature_types [s] of Inl e \<Rightarrow> Inl e | Inr _ \<Rightarrow> Inr [s])
      | Many ts \<Rightarrow>
          (case check_feature_types ts of Inl e \<Rightarrow> Inl e | Inr _ \<Rightarrow> Inr ts))"

section \<open>Rectangles and features\<close>

text \<open>
  A rectangle is the pair of its inclusive corners \<open>((row0, col0), (row1, col1))\<close>, as
  in the listing of the docstring of \<^verbatim>\<open>haar_like_feature_coord\<close>; a feature is the
  list of its rectangles.
\<close>

type_synonym rectangle = "(int \<times> int) \<times> (int \<times> int)"
type_synonym feature = "rectangle list"

section \<open>Coordinate generator\<close>

text \<open>
  Modelled from the spec: the Cython generator \<^verbatim>\<open>haar_like_feature_coord_wrapper\<close>
  (\<^verbatim>\<open>_haar.pyx\<close>) is missing from the sources. The loop nest (top-left row, top-left
  column, height, width; spec section 4.2) and the rectangles of each topology are
  the spec's; the sizes are the ones that the outputs recorded in the docstrings of
  \<^verbatim>\<open>haar.py\<close> determine (lines 72-77, 151-155 and 160-173, reproduced below as
  \<open>doc_coord_type_4\<close>, \<open>doc_feature_type_3_x\<close> and \<open>doc_feature_subset\<close>): every
  rectangle of a feature has the same height \<open>dy\<close> and the same width \<open>dx\<close>, with
  \<open>dy\<close> in \<^verbatim>\<open>range(1, height)\<close> and \<open>dx\<close> in \<^verbatim>\<open>range(1, width)\<close>, and the four
  rectangles of \<^verbatim>\<open>type-4\<close> are listed clockwise from the top-left one.
\<close>

definition rect_features ::
  "string \<Rightarrow> int \<Rightarrow> int \<Rightarrow> int \<Rightarrow> int \<Rightarrow> int \<Rightarrow> int \<Rightarrow> feature list" where
  "rect_features feat_t width height y x dy dx =
     (if feat_t = ''type-2-x'' \<and> y + dy \<le> height \<and> x + 2 * dx \<le> width then
        [[((y, x), (y + dy - 1, x + dx - 1)),
          ((y, x + dx), (y + dy - 1, x + 2 * dx - 1))]]
      else if feat_t = ''type-2-y'' \<and> y + 2 * dy \<le> height \<and> x + dx \<le> width then
        [[((y, x), (y + dy - 1, x + dx - 1)),
          ((y + dy, x), (y + 2 * dy - 1, x + dx - 1))]]
      else if feat_t = ''type-3-x'' \<and> y + dy \<le> height \<and> x + 3 * dx \<le> width then
        [[((y, x), (y + dy - 1, x + dx - 1)),
          ((y, x + dx), (y + dy - 1, x + 2 * dx - 1)),
          ((y, x + 2 * dx), (y + dy - 1, x + 3 * dx - 1))]]
      else if feat_t = ''type-3-y'' \<and> y + 3 * dy \<le> height \<and> x + dx \<le> width then
        [[((y, x), (y + dy - 1, x + dx - 1)),
          ((y + dy, x), (y + 2 * dy - 1, x + dx - 1)),
          ((y + 2 * dy, x), (y + 3 * dy - 1, x + dx - 1))]]
      else if feat_t = ''type-4'' \<and> y + 2 * dy \<le> height \<and> x + 2 * dx \<le> width then
        [[((y, x), (y + dy - 1, x + dx - 1)),
          ((y, x + dx), (y + dy - 1, x + 2 * dx - 1)),
          ((y + dy, x + dx), (y + 2 * dy - 1, x + 2 * dx - 1)),
          ((y + dy, x), (y + 2 * dy - 1, x + dx - 1))]]
      else [])"

definition loop_dx :: "string \<Rightarrow> int \<Rightarrow> int \<Rightarrow> int \<Rightarrow> int \<Rightarrow> int \<Rightarrow> feature list" where
  "loop_dx feat_t width height y x dy =
     concat (map (\<lambda>dx. rect_features feat_t width height y x dy dx) [1..width - 1])"

definition loop_dy :: "string \<Rightarrow> int \<Rightarrow> int \<Rightarrow> int \<Rightarrow> int \<Rightarrow> feature list" where
  "loop_dy feat_t width height y x =
     concat (map (\<lambda>dy. loop_dx feat_t width height y x dy) [1..height - 1])"

definition loop_x :: "string \<Rightarrow> int \<Rightarrow> int \<Rightarrow> int \<Rightarrow> feature list" where
  "loop_x feat_t width height y =
     concat (map (\<lambda>x. loop_dy feat_t width height y x) [0..width - 1])"

definition generate_coord :: "int \<Rightarrow> int \<Rightarrow> string \<Rightarrow> feature list" where
  "generate_coord width height feat_t =
     concat (map (\<lambda>y. loop_x feat_t width height y) [0..height - 1])"

text \<open>The wrapper returns the coordinates and one type label per feature.\<close>

definition haar_like_feature_coord_wrapper ::
  "int \<Rightarrow> int \<Rightarrow> string \<Rightarrow> feature list \<times> string list" where
  "haar_like_feature_coord_wrapper width height feat_t =
     (let feat_t_coord = generate_coord width height feat_t
      in (feat_t_coord, replicate (length feat_t_coord) feat_t))"

text \<open>
  \<^verbatim>\<open>haar_like_feature_coord\<close> (lines 80-90): validate, call the wrapper for each
  requested type, and concatenate; \<^verbatim>\<open>np.concatenate\<close> of no array at all raises.
\<close>

definition haar_like_feature_coord ::
  "int \<Rightarrow> int \<Rightarrow> feature_type_arg \<Rightarrow> error + (feature list \<times> string list)" where
  "haar_like_feature_coord width height feature_type =
     (case validate_feature_type feature_type of
        Inl e \<Rightarrow> Inl e
      | Inr feature_type_ \<Rightarrow>
          (let results = map (haar_like_feature_coord_wrapper width height) feature_type_
           in if results = [] then Inl NothingToStack
              else Inr (concat (map fst results), concat (map snd results))))"

section \<open>Integral image and rectangle sums\<close>

text \<open>
  The integral image is a two-dimensional array, here the list of its rows. A lookup
  outside the array is an \<open>IndexError\<close>.
\<close>

type_synonym integral_image = "int list list"

definition ii_at :: "integral_image \<Rightarrow> int \<Rightarrow> int \<Rightarrow> error + int" where
  "ii_at ii i j =
     (if 0 \<le> i \<and> i < int (length ii) \<and> 0 \<le> j \<and> j < int (length (ii ! nat i))
      then Inr (ii ! nat i ! nat j) else Inl IndexError)"

definition bind_err :: "error + 'a \<Rightarrow> ('a \<Rightarrow> error + 'b) \<Rightarrow> error + 'b" where
  "bind_err m k = (case m of Inl e \<Rightarrow> Inl e | Inr v \<Rightarrow> k v)"

text \<open>
  Modelled from the spec: the summation primitive of the Cython evaluator is missing
  from the sources. Spec section 4.3: four lookups combined by inclusion and
  exclusion, the lookups at row \<open>r0 - 1\<close> and column \<open>c0 - 1\<close> replaced by 0 on the
  border of the image.
\<close>

definition integrate :: "integral_image \<Rightarrow> int \<Rightarrow> int \<Rightarrow> int \<Rightarrow> int \<Rightarrow> error + int" where
  "integrate ii r0 c0 r1 c1 =
     bind_err (ii_at ii r1 c1) (\<lambda>s.
     bind_err (if r0 > 0 then ii_at ii (r0 - 1) c1 else Inr 0) (\<lambda>top.
     bind_err (if c0 > 0 then ii_at ii r1 (c0 - 1) else Inr 0) (\<lambda>left.
     bind_err (if r0 > 0 \<and> c0 > 0 then ii_at ii (r0 - 1) (c0 - 1) else Inr 0) (\<lambda>corner.
       Inr (s - top - left + corner)))))"

text \<open>The rectangle is local to the window; its corners are offset by \<open>(r, c)\<close>.\<close>

definition rect_sum :: "integral_image \<Rightarrow> int \<Rightarrow> int \<Rightarrow> rectangle \<Rightarrow> error + int" where
  "rect_sum ii r c rect =
     (case rect of ((r0, c0), (r1, c1)) \<Rightarrow> integrate ii (r + r0) (c + c0) (r + r1) (c + c1))"

section \<open>Feature evaluator\<close>

text \<open>
  The sign of the rectangle at index \<open>idx_rect\<close> of a feature, as
  \<^verbatim>\<open>draw_haar_like_feature\<close> decides it (lines 315-320): positive when
  \<^verbatim>\<open>(idx_rect + 1) % 2 == 0\<close>, negative otherwise.
\<close>

definition rect_sign :: "nat \<Rightarrow> int" where
  "rect_sign idx_rect = (if (idx_rect + 1) mod 2 = 0 then 1 else - 1)"

text \<open>
  Modelled from the spec: the Cython evaluator \<^verbatim>\<open>haar_like_feature_wrapper\<close>
  (\<^verbatim>\<open>_haar.pyx\<close>) is missing from the sources. Spec section 4.4: the value of a
  feature is the sum of the integral sums of its rectangles, each weighted by its
  sign. Without coordinates it generates those of the topology; it returns one value
  per feature.
\<close>

fun eval_rects ::
  "integral_image \<Rightarrow> int \<Rightarrow> int \<Rightarrow> nat \<Rightarrow> int \<Rightarrow> rectangle list \<Rightarrow> error + int" where
  "eval_rects ii r c idx_rect acc [] = Inr acc"
| "eval_rects ii r c idx_rect acc (rect # rest) =
     (case rect_sum ii r c rect of
        Inl e \<Rightarrow> Inl e
      | Inr s \<Rightarrow> eval_rects ii r c (idx_rect + 1) (acc + rect_sign idx_rect * s) rest)"

definition eval_feature :: "integral_image \<Rightarrow> int \<Rightarrow> int \<Rightarrow> feature \<Rightarrow> error + int" where
  "eval_feature ii r c feat = eval_rects ii r c 0 0 feat"

text \<open>Calls made one after the other: the first exception ends them.\<close>

fun all_or_first_error :: "(error + 'a) list \<Rightarrow> error + 'a list" where
  "all_or_first_error [] = Inr []"
| "all_or_first_error (x # xs) =
     (case x of
        Inl e \<Rightarrow> Inl e
      | Inr v \<Rightarrow> (case all_or_first_error xs of Inl e \<Rightarrow> Inl e | Inr vs \<Rightarrow> Inr (v # vs)))"

text \<open>
  The condition of spec section 4.3: the window at offset \<open>(r, c)\<close> fits when its rows
  and columns are rows and columns of the integral image. It is a condition of the
  statements below only: \<^verbatim>\<open>haar_like_feature\<close> (lines 191-215) hands \<^verbatim>\<open>r\<close>, \<^verbatim>\<open>c\<close>,
  \<^verbatim>\<open>width\<close> and \<^verbatim>\<open>height\<close> to the wrapper without any test, and its only
  \<^verbatim>\<open>raise\<close> statements are those of lines 33 and 200.
\<close>

definition window_fits :: "integral_image \<Rightarrow> int \<Rightarrow> int \<Rightarrow> int \<Rightarrow> int \<Rightarrow> bool" where
  "window_fits ii r c width height =
     (0 \<le> r \<and> 0 \<le> c \<and> r + height \<le> int (length ii) \<and>
      list_all (\<lambda>row. c + width \<le> int (length row)) ii)"

text \<open>
  Modelled from the spec: the wrapper \<^verbatim>\<open>haar_like_feature_wrapper\<close> itself, on the
  coordinates it is given or, without them, on those of the topology. It evaluates the
  rectangles as they are: nothing in the sources tests the window or names an error
  for it, so that a lookup outside the integral image is the only failure.
\<close>

definition haar_like_feature_wrapper ::
  "integral_image \<Rightarrow> int \<Rightarrow> int \<Rightarrow> int \<Rightarrow> int \<Rightarrow> string \<Rightarrow> feature list option
   \<Rightarrow> error + int list" where
  "haar_like_feature_wrapper ii r c width height feat_t feature_coord_opt =
     all_or_first_error (map (eval_feature ii r c)
       (case feature_coord_opt of
          None \<Rightarrow> generate_coord width height feat_t
        | Some coord \<Rightarrow> coord))"

subsection \<open>The numpy operations of the partial mode\<close>

definition flatnonzero :: "bool list \<Rightarrow> nat list" where
  "flatnonzero msk = filter (\<lambda>i. msk ! i) [0..<length msk]"

definition count_nonzero :: "bool list \<Rightarrow> nat" where
  "count_nonzero msk = length (filter (\<lambda>b. b) msk)"

text \<open>Boolean indexing \<^verbatim>\<open>feature_coord[mask]\<close>, for a mask as long as the array.\<close>

definition select_mask :: "bool list \<Rightarrow> 'a list \<Rightarrow> 'a list" where
  "select_mask msk xs = map snd (filter fst (zip msk xs))"

text \<open>
  The assignment \<^verbatim>\<open>dst[idx] = src\<close> through an index array (line 214): an index
  outside \<open>dst\<close> raises, otherwise \<open>dst[idx[k]]\<close> becomes \<open>src[k]\<close> for each \<open>k\<close> in turn.
\<close>

definition scatter :: "'a list \<Rightarrow> nat list \<Rightarrow> 'a list \<Rightarrow> error + 'a list" where
  "scatter dst idx src =
     (if \<exists>i \<in> set idx. length dst \<le> i then Inl IndexError
      else Inr (foldl (\<lambda>out (i, v). out[i := v]) dst (zip idx src)))"

subsection \<open>\<^verbatim>\<open>haar_like_feature\<close> (lines 191-215)\<close>

text \<open>
  The list comprehension of lines 204-209: for each type of \<^verbatim>\<open>FEATURE_TYPE\<close> whose mask
  is not empty, the indices of the mask and the values of the wrapper on the selected
  coordinates. The first wrapper call that raises ends the comprehension.
\<close>

fun eval_groups ::
  "(string \<Rightarrow> feature list \<Rightarrow> error + int list) \<Rightarrow> feature list \<Rightarrow> (bool list \<times> string) list
   \<Rightarrow> error + (nat list \<times> int list) list" where
  "eval_groups wrapper feature_coord [] = Inr []"
| "eval_groups wrapper feature_coord ((msk, feat_t) # rest) =
     (if count_nonzero msk \<noteq> 0 then
        (case wrapper feat_t (select_mask msk feature_coord) of
           Inl e \<Rightarrow> Inl e
         | Inr vals \<Rightarrow>
             (case eval_groups wrapper feature_coord rest of
                Inl e \<Rightarrow> Inl e
              | Inr groups \<Rightarrow> Inr ((flatnonzero msk, vals) # groups)))
      else eval_groups wrapper feature_coord rest)"

text \<open>Line 203: one mask per type of \<^verbatim>\<open>FEATURE_TYPE\<close>.\<close>

definition mask_feature :: "string list \<Rightarrow> bool list list" where
  "mask_feature types = map (\<lambda>feat_t. map (\<lambda>t. t = feat_t) types) FEATURE_TYPE"

definition partial_groups ::
  "integral_image \<Rightarrow> int \<Rightarrow> int \<Rightarrow> int \<Rightarrow> int \<Rightarrow> string list \<Rightarrow> feature list
   \<Rightarrow> error + (nat list \<times> int list) list" where
  "partial_groups int_image r c width height types feature_coord =
     eval_groups
       (\<lambda>feat_t coord. haar_like_feature_wrapper int_image r c width height feat_t (Some coord))
       feature_coord (zip (mask_feature types) FEATURE_TYPE)"

text \<open>
  Without coordinates (lines 192-197) the requested types are validated and the values
  of the wrapper are chained; \<^verbatim>\<open>np.hstack\<close> of no value at all raises. With coordinates
  (lines 199-215) \<^verbatim>\<open>feature_type\<close> has to be an array of labels: \<^verbatim>\<open>None\<close> and a
  string have no \<^verbatim>\<open>shape\<close>.
\<close>

definition haar_like_feature ::
  "integral_image \<Rightarrow> int \<Rightarrow> int \<Rightarrow> int \<Rightarrow> int \<Rightarrow> feature_type_arg \<Rightarrow> feature list option
   \<Rightarrow> error + int list" where
  "haar_like_feature int_image r c width height feature_type feature_coord_opt =
     (case feature_coord_opt of
        None \<Rightarrow>
          (case validate_feature_type feature_type of
             Inl e \<Rightarrow> Inl e
           | Inr feature_type_ \<Rightarrow>
               (case all_or_first_error
                       (map (\<lambda>feat_t. haar_like_feature_wrapper int_image r c width height
                                        feat_t None) feature_type_) of
                  Inl e \<Rightarrow> Inl e
                | Inr chunks \<Rightarrow>
                    if concat chunks = [] then Inl NothingToStack else Inr (concat chunks)))
      | Some feature_coord \<Rightarrow>
          (case feature_type of
             Unspecified \<Rightarrow> Inl AttributeError
           | Single s \<Rightarrow> Inl AttributeError
           | Many types \<Rightarrow>
               if length feature_coord \<noteq> length types then Inl ShapeMismatch
               else
                 (case partial_groups int_image r c width height types feature_coord of
                    Inl e \<Rightarrow> Inl e
                  | Inr groups \<Rightarrow>
                      if groups = [] then Inl NothingToUnpack
                      else
                        (let haar_feature_idx = concat (map fst groups);
                             haar_feature = concat (map snd groups)
                         in scatter haar_feature haar_feature_idx haar_feature))))"

section \<open>The outputs recorded in the docstrings\<close>

text \<open>
  The integral image of the docstring of \<^verbatim>\<open>haar_like_feature\<close> (lines 149-150): the
  image is \<^verbatim>\<open>np.ones((5, 5))\<close>, so the entry at row \<open>i\<close> and column \<open>j\<close> of its
  integral image is \<open>(i + 1) * (j + 1)\<close>.
\<close>

definition doc_img_ii :: integral_image where
  "doc_img_ii =
     [[1, 2, 3, 4, 5], [2, 4, 6, 8, 10], [3, 6, 9, 12, 15], [4, 8, 12, 16, 20],
      [5, 10, 15, 20, 25]]"

text \<open>Lines 72-77: the output of \<^verbatim>\<open>haar_like_feature_coord(2, 2, 'type-4')\<close>.\<close>

definition doc_coord_type_4 :: "feature list \<times> string list" where
  "doc_coord_type_4 =
     ([[((0, 0), (0, 0)), ((0, 1), (0, 1)), ((1, 1), (1, 1)), ((1, 0), (1, 0))]],
      [''type-4''])"

text \<open>Lines 151-155: the output of \<^verbatim>\<open>haar_like_feature(img_ii, 0, 0, 5, 5, 'type-3-x')\<close>.\<close>

definition doc_feature_type_3_x :: "int list" where
  "doc_feature_type_3_x =
     [-1, -2, -3, -4, -1, -2, -3, -4, -1, -2, -3, -4, -1, -2, -3, -4, -1,
      -2, -3, -4, -1, -2, -3, -4, -1, -2, -3, -1, -2, -3, -1, -2, -3, -1,
      -2, -1, -2, -1, -2, -1, -1, -1]"

text \<open>
  Lines 160-173: every other feature of \<^verbatim>\<open>type-2-x\<close> and of \<^verbatim>\<open>type-3-x\<close> on the same
  window, evaluated from their coordinates and labels.
\<close>

definition doc_feature_subset :: "int list" where
  "doc_feature_subset =
     [0, 0, 0, 0, 0, 0, 0, 0, 0, 0, 0, 0, 0, 0, 0, 0, 0,
      0, 0, 0, 0, 0, 0, 0, 0, 0, 0, 0, 0, 0, 0, 0, 0, 0,
      0, 0, 0, 0, 0, 0, 0, 0, -1, -3, -1, -3, -1, -3, -1, -3, -1,
      -3, -1, -3, -1, -3, -2, -1, -3, -2, -2, -2, -1]"

text \<open>The slice \<^verbatim>\<open>x[::2]\<close>.\<close>

fun every_other :: "'a list \<Rightarrow> 'a list" where
  "every_other [] = []"
| "every_other [x] = [x]"
| "every_other (x # y # rest) = x # every_other rest"

text \<open>
  A second integral image for the examples: that of the image with rows \<open>[1, 2]\<close> and
  \<open>[3, 4]\<close>.
\<close>

definition example_ii :: integral_image where
  "example_ii = [[1, 3], [4, 10]]"

section \<open>The enumeration in the words of the spec\<close>

text \<open>
  Spec section 4.2 for the two rectangles split along the columns, to be compared with
  the generator: every top-left \<open>(r0, c0)\<close>, every total width \<open>w \<ge> 2\<close> and height
  \<open>h \<ge> 1\<close> that fit in the window, and every split column \<open>c_split\<close> with
  \<open>c0 < c_split \<le> c0 + w - 1\<close>.
\<close>

definition spec_two_rect_x :: "int \<Rightarrow> int \<Rightarrow> feature list" where
  "spec_two_rect_x width height =
     concat (map (\<lambda>r0. concat (map (\<lambda>c0. concat (map (\<lambda>h. concat (map (\<lambda>w.
       map (\<lambda>c_split. [((r0, c0), (r0 + h - 1, c_split - 1)),
                        ((r0, c_split), (r0 + h - 1, c0 + w - 1))])
         [c0 + 1..c0 + w - 1])
       [2..width - c0])) [1..height - r0])) [0..width - 1])) [0..height - 1])"

section \<open>Auxiliary definitions for the proofs\<close>

text \<open>The first rectangle of a feature: it determines the loop variables that produced it.\<close>

definition first_rect :: "feature \<Rightarrow> rectangle" where
  "first_rect feat = (case feat of [] \<Rightarrow> ((0, 0), (0, 0)) | rect # _ \<Rightarrow> rect)"

text \<open>
  The indices of the entries whose label is one of \<open>names\<close>, grouped by name: the
  concatenation of line 211 when every group is kept.
\<close>

definition group_idx :: "string list \<Rightarrow> string list \<Rightarrow> nat list" where
  "group_idx names types =
     concat (map (\<lambda>(m, t). flatnonzero m) (zip (map (\<lambda>feat_t. map (\<lambda>t. t = feat_t) types) names) names))"

text \<open>
  Evaluation of the features one by one, in the order of the input: what the partial
  mode has to return (spec section 4.4, mode 2).
\<close>

definition evaluate_in_order ::
  "integral_image \<Rightarrow> int \<Rightarrow> int \<Rightarrow> feature list \<Rightarrow> error + int list" where
  "evaluate_in_order ii r c coord =
     (if coord = [] then Inl NothingToUnpack
      else all_or_first_error (map (eval_feature ii r c) coord))"


section \<open>The coordinate generator enumerates without repetition\<close>

lemma distinct_concat_key:
  assumes "distinct xs"
    and "\<And>x. x \<in> set xs \<Longrightarrow> distinct (f x)"
    and "\<And>x e. x \<in> set xs \<Longrightarrow> e \<in> set (f x) \<Longrightarrow> k e = x"
  shows "distinct (concat (map f xs))"
  using assms
proof (induction xs)
  case Nil
  then show ?case by simp
next
  case (Cons a xs)
  have "set (f a) \<inter> set (concat (map f xs)) = {}"
  proof (rule ccontr)
    assume "set (f a) \<inter> set (concat (map f xs)) \<noteq> {}"
    then obtain e x where e: "e \<in> set (f a)" "x \<in> set xs" "e \<in> set (f x)" by auto
    from Cons.prems(3) [of a e] e(1) have "k e = a" by simp
    moreover from Cons.prems(3) [of x e] e(2,3) have "k e = x" by simp
    ultimately show False using e(2) Cons.prems(1) by simp
  qed
  moreover have "distinct (f a)" using Cons.prems(2) by simp
  moreover have "distinct (concat (map f xs))"
    using Cons.IH Cons.prems by simp
  ultimately show ?case by simp
qed

lemma rect_features_first:
  "feat \<in> set (rect_features feat_t width height y x dy dx) \<Longrightarrow>
   first_rect feat = ((y, x), (y + dy - 1, x + dx - 1))"
  by (auto simp: rect_features_def first_rect_def split: if_splits)

lemma distinct_rect_features: "distinct (rect_features feat_t width height y x dy dx)"
  by (simp add: rect_features_def)

lemma loop_dx_first:
  "feat \<in> set (loop_dx feat_t width height y x dy) \<Longrightarrow>
   fst (first_rect feat) = (y, x) \<and> fst (snd (first_rect feat)) = y + dy - 1"
  by (auto simp: loop_dx_def dest: rect_features_first)

lemma distinct_loop_dx: "distinct (loop_dx feat_t width height y x dy)"
  unfolding loop_dx_def
  by (rule distinct_concat_key [where k = "\<lambda>feat. snd (snd (first_rect feat)) - x + 1"])
     (auto simp: distinct_rect_features dest: rect_features_first)

lemma loop_dy_first:
  "feat \<in> set (loop_dy feat_t width height y x) \<Longrightarrow> fst (first_rect feat) = (y, x)"
  by (auto simp: loop_dy_def dest: loop_dx_first)

lemma distinct_loop_dy: "distinct (loop_dy feat_t width height y x)"
  unfolding loop_dy_def
  by (rule distinct_concat_key [where k = "\<lambda>feat. fst (snd (first_rect feat)) - y + 1"])
     (auto simp: distinct_loop_dx dest: loop_dx_first)

lemma distinct_loop_x: "distinct (loop_x feat_t width height y)"
  unfolding loop_x_def
  by (rule distinct_concat_key [where k = "\<lambda>feat. snd (fst (first_rect feat))"])
     (auto simp: distinct_loop_dy dest: loop_dy_first)

lemma loop_x_first:
  "feat \<in> set (loop_x feat_t width height y) \<Longrightarrow> fst (fst (first_rect feat)) = y"
  by (auto simp: loop_x_def dest: loop_dy_first)

lemma distinct_generate_coord: "distinct (generate_coord width height feat_t)"
  unfolding generate_coord_def
  by (rule distinct_concat_key [where k = "\<lambda>feat. fst (fst (first_rect feat))"])
     (auto simp: distinct_loop_x dest: loop_x_first)

lemma mem_generate_coord:
  "feat \<in> set (generate_coord width height feat_t) \<longleftrightarrow>
     (\<exists>y x dy dx. 0 \<le> y \<and> y < height \<and> 0 \<le> x \<and> x < width \<and> 1 \<le> dy \<and> dy < height \<and>
        1 \<le> dx \<and> dx < width \<and> feat \<in> set (rect_features feat_t width height y x dy dx))"
proof -
  have "feat \<in> set (generate_coord width height feat_t) \<longleftrightarrow>
     (\<exists>y \<in> {0..height - 1}. \<exists>x \<in> {0..width - 1}. \<exists>dy \<in> {1..height - 1}. \<exists>dx \<in> {1..width - 1}.
        feat \<in> set (rect_features feat_t width height y x dy dx))"
    by (simp add: generate_coord_def loop_x_def loop_dy_def loop_dx_def)
  also have "\<dots> \<longleftrightarrow> (\<exists>y x dy dx. 0 \<le> y \<and> y < height \<and> 0 \<le> x \<and> x < width \<and> 1 \<le> dy \<and> dy < height \<and>
        1 \<le> dx \<and> dx < width \<and> feat \<in> set (rect_features feat_t width height y x dy dx))"
    unfolding Bex_def atLeastAtMost_iff by (intro ex_cong1) auto
  finally show ?thesis .
qed

lemma mem_generate_coord_type_2_x:
  "feat \<in> set (generate_coord width height ''type-2-x'') \<longleftrightarrow>
     (\<exists>y x dy dx. 0 \<le> y \<and> 0 \<le> x \<and> 1 \<le> dy \<and> dy < height \<and> 1 \<le> dx \<and> dx < width \<and>
        y + dy \<le> height \<and> x + 2 * dx \<le> width \<and>
        feat = [((y, x), (y + dy - 1, x + dx - 1)),
                ((y, x + dx), (y + dy - 1, x + 2 * dx - 1))])"
  unfolding mem_generate_coord
  by (intro ex_cong1) (auto simp: rect_features_def)

lemma mem_generate_coord_type_3_x:
  "feat \<in> set (generate_coord width height ''type-3-x'') \<longleftrightarrow>
     (\<exists>y x dy dx. 0 \<le> y \<and> 0 \<le> x \<and> 1 \<le> dy \<and> dy < height \<and> 1 \<le> dx \<and> dx < width \<and>
        y + dy \<le> height \<and> x + 3 * dx \<le> width \<and>
        feat = [((y, x), (y + dy - 1, x + dx - 1)),
                ((y, x + dx), (y + dy - 1, x + 2 * dx - 1)),
                ((y, x + 2 * dx), (y + dy - 1, x + 3 * dx - 1))])"
  unfolding mem_generate_coord
  by (intro ex_cong1) (auto simp: rect_features_def)

lemma mem_generate_coord_type_3_y:
  "feat \<in> set (generate_coord width height ''type-3-y'') \<longleftrightarrow>
     (\<exists>y x dy dx. 0 \<le> y \<and> 0 \<le> x \<and> 1 \<le> dy \<and> dy < height \<and> 1 \<le> dx \<and> dx < width \<and>
        y + 3 * dy \<le> height \<and> x + dx \<le> width \<and>
        feat = [((y, x), (y + dy - 1, x + dx - 1)),
                ((y + dy, x), (y + 2 * dy - 1, x + dx - 1)),
                ((y + 2 * dy, x), (y + 3 * dy - 1, x + dx - 1))])"
  unfolding mem_generate_coord
  by (intro ex_cong1) (auto simp: rect_features_def)

lemma mem_generate_coord_type_4:
  "feat \<in> set (generate_coord width height ''type-4'') \<longleftrightarrow>
     (\<exists>y x dy dx. 0 \<le> y \<and> 0 \<le> x \<and> 1 \<le> dy \<and> dy < height \<and> 1 \<le> dx \<and> dx < width \<and>
        y + 2 * dy \<le> height \<and> x + 2 * dx \<le> width \<and>
        feat = [((y, x), (y + dy - 1, x + dx - 1)),
                ((y, x + dx), (y + dy - 1, x + 2 * dx - 1)),
                ((y + dy, x + dx), (y + 2 * dy - 1, x + 2 * dx - 1)),
                ((y + dy, x), (y + 2 * dy - 1, x + dx - 1))])"
  unfolding mem_generate_coord
  by (intro ex_cong1) (auto simp: rect_features_def)

section \<open>Sequencing, masks and scatter\<close>

subsection \<open>First error or all values\<close>

lemma all_or_first_error_Inr_map: "all_or_first_error (map (\<lambda>x. Inr (g x)) xs) = Inr (map g xs)"
  by (induction xs) auto

lemma all_or_first_error_defined:
  "(\<And>x. x \<in> set xs \<Longrightarrow> f x = Inr (g x)) \<Longrightarrow> all_or_first_error (map f xs) = Inr (map g xs)"
  by (induction xs) auto

lemma all_or_first_error_Inr_iff:
  "all_or_first_error ms = Inr vs \<longleftrightarrow> ms = map Inr vs"
proof (induction ms arbitrary: vs)
  case Nil
  then show ?case by auto
next
  case (Cons m ms)
  show ?case
  proof (cases m)
    case (Inl e)
    then show ?thesis by auto
  next
    case (Inr v)
    show ?thesis
    proof (cases "all_or_first_error ms")
      case (Inl e)
      with Inr Cons.IH show ?thesis by (cases vs) auto
    next
      case r: (Inr ws)
      from Cons.IH [of ws] r have "ms = map Inr ws" by simp
      with Inr r show ?thesis by (cases vs) auto
    qed
  qed
qed

lemma all_or_first_error_Inl:
  "all_or_first_error ms = Inl e \<Longrightarrow> Inl e \<in> set ms"
  by (induction ms) (auto split: sum.splits)

lemma all_or_first_error_Inl_ex:
  "Inl e \<in> set ms \<Longrightarrow> \<exists>e'. all_or_first_error ms = Inl e'"
  by (induction ms) (auto split: sum.splits)

subsection \<open>Masks\<close>

lemma flatnonzero_snoc:
  "flatnonzero (msk @ [b]) = flatnonzero msk @ (if b then [length msk] else [])"
proof -
  have "filter (\<lambda>i. (msk @ [b]) ! i) [0..<length msk] = filter (\<lambda>i. msk ! i) [0..<length msk]"
    by (rule filter_cong) (auto simp: nth_append)
  then show ?thesis by (simp add: flatnonzero_def)
qed

lemma select_mask_snoc:
  "length msk = length xs \<Longrightarrow>
   select_mask (msk @ [b]) (xs @ [x]) = select_mask msk xs @ (if b then [x] else [])"
  by (simp add: select_mask_def)

lemma flatnonzero_less: "i \<in> set (flatnonzero msk) \<Longrightarrow> i < length msk"
  by (simp add: flatnonzero_def)

lemma select_mask_nth:
  "length msk = length xs \<Longrightarrow> select_mask msk xs = map (\<lambda>i. xs ! i) (flatnonzero msk)"
proof (induction msk arbitrary: xs rule: rev_induct)
  case Nil
  then show ?case by (simp add: select_mask_def flatnonzero_def)
next
  case (snoc b msk)
  then obtain ys y where xs: "xs = ys @ [y]" "length msk = length ys"
    by (cases xs rule: rev_cases) auto
  have "map (\<lambda>i. (ys @ [y]) ! i) (flatnonzero msk) = map (\<lambda>i. ys ! i) (flatnonzero msk)"
    using xs(2) by (auto simp: nth_append dest: flatnonzero_less)
  with snoc.IH [OF xs(2)] xs show ?case
    by (simp add: flatnonzero_snoc select_mask_snoc)
qed

lemma set_flatnonzero_mask:
  "set (flatnonzero (map (\<lambda>t. t = feat_t) types)) = {i. i < length types \<and> types ! i = feat_t}"
  by (auto simp: flatnonzero_def)

lemma distinct_flatnonzero: "distinct (flatnonzero msk)"
  by (simp add: flatnonzero_def)

lemma count_nonzero_mask:
  "count_nonzero (map (\<lambda>t. t = feat_t) types) \<noteq> 0 \<longleftrightarrow> feat_t \<in> set types"
  by (auto simp: count_nonzero_def filter_empty_conv)

lemma count_nonzero_mask_pos:
  "0 < count_nonzero (map (\<lambda>t. t = feat_t) types) \<longleftrightarrow> feat_t \<in> set types"
  using count_nonzero_mask [of feat_t types] by simp

lemma length_flatnonzero: "length (flatnonzero msk) = count_nonzero msk"
proof (induction msk rule: rev_induct)
  case Nil
  then show ?case by (simp add: flatnonzero_def count_nonzero_def)
next
  case (snoc b msk)
  then show ?case by (simp add: flatnonzero_snoc) (simp add: count_nonzero_def)
qed

subsection \<open>Scatter\<close>

lemma foldl_update_length:
  "length (foldl (\<lambda>out (i, v). out[i := v]) dst ivs) = length dst"
  by (induction ivs arbitrary: dst) auto

lemma foldl_update_set:
  "set (foldl (\<lambda>out (i, v). out[i := v]) dst ivs) \<subseteq> set dst \<union> snd ` set ivs"
proof (induction ivs arbitrary: dst)
  case Nil
  then show ?case by simp
next
  case (Cons iv ivs)
  obtain i v where iv: "iv = (i, v)" by (cases iv)
  have "set (dst[i := v]) \<subseteq> insert v (set dst)" by (rule set_update_subset_insert)
  with Cons.IH [of "dst[i := v]"] iv show ?case by auto
qed

lemma foldl_update_nth:
  "distinct idx \<Longrightarrow> j < length dst \<Longrightarrow>
   foldl (\<lambda>out (i, v). out[i := v]) dst (zip idx (map g idx)) ! j =
     (if j \<in> set idx then g j else dst ! j)"
proof (induction idx arbitrary: dst)
  case Nil
  then show ?case by simp
next
  case (Cons i idx)
  from Cons.prems have d: "distinct idx" and ni: "i \<notin> set idx" by auto
  from Cons.prems have j: "j < length (dst[i := g i])" by simp
  from Cons.IH [OF d j] ni Cons.prems(2) show ?case by (auto simp: nth_list_update)
qed

lemma scatter_permutation:
  assumes "distinct idx" and "set idx = {..<n}" and "length dst = n"
  shows "scatter dst idx (map g idx) = Inr (map g [0..<n])"
proof -
  have ok: "\<not> (\<exists>i \<in> set idx. length dst \<le> i)" using assms by auto
  have "foldl (\<lambda>out (i, v). out[i := v]) dst (zip idx (map g idx)) = map g [0..<n]"
  proof (rule nth_equalityI)
    show "length (foldl (\<lambda>out (i, v). out[i := v]) dst (zip idx (map g idx))) =
          length (map g [0..<n])"
      using assms(3) by (simp add: foldl_update_length)
  next
    fix j assume "j < length (foldl (\<lambda>out (i, v). out[i := v]) dst (zip idx (map g idx)))"
    then have j: "j < n" using assms(3) by (simp add: foldl_update_length)
    then have "j < length dst" "j \<in> set idx" using assms by auto
    with foldl_update_nth [OF assms(1), of j dst g] j
    show "foldl (\<lambda>out (i, v). out[i := v]) dst (zip idx (map g idx)) ! j = map g [0..<n] ! j"
      by simp
  qed
  with ok show ?thesis by (simp add: scatter_def)
qed

lemma scatter_Inr:
  "scatter dst idx src = Inr out \<Longrightarrow> length out = length dst \<and> set out \<subseteq> set dst \<union> set src"
proof -
  assume a: "scatter dst idx src = Inr out"
  then have out: "out = foldl (\<lambda>out (i, v). out[i := v]) dst (zip idx src)"
    by (simp add: scatter_def split: if_splits)
  have "snd ` set (zip idx src) \<subseteq> set src"
    by (auto dest: set_zip_rightD)
  with foldl_update_set [of dst "zip idx src"] out show ?thesis
    by (auto simp: foldl_update_length)
qed

lemma scatter_Inl: "scatter dst idx src = Inl e \<Longrightarrow> e = IndexError"
  by (simp add: scatter_def split: if_splits)

section \<open>The groups of the partial mode\<close>

lemma eval_groups_defined:
  assumes "\<And>m t. (m, t) \<in> set gs \<Longrightarrow> count_nonzero m \<noteq> 0 \<Longrightarrow>
             wrapper t (select_mask m cs) = Inr (map g (select_mask m cs))"
  shows "eval_groups wrapper cs gs =
           Inr (map (\<lambda>(m, t). (flatnonzero m, map g (select_mask m cs)))
                  (filter (\<lambda>(m, t). count_nonzero m \<noteq> 0) gs))"
  using assms
proof (induction gs)
  case Nil
  then show ?case by simp
next
  case (Cons a gs)
  obtain m t where a: "a = (m, t)" by (cases a)
  have ih: "eval_groups wrapper cs gs =
           Inr (map (\<lambda>(m, t). (flatnonzero m, map g (select_mask m cs)))
                  (filter (\<lambda>(m, t). count_nonzero m \<noteq> 0) gs))"
    using Cons.IH Cons.prems by simp
  show ?case
  proof (cases "count_nonzero m \<noteq> 0")
    case True
    with Cons.prems [of m t] a
    have "wrapper t (select_mask m cs) = Inr (map g (select_mask m cs))" by simp
    with True a ih show ?thesis by simp
  next
    case False
    with a ih show ?thesis by simp
  qed
qed

lemma eval_groups_error:
  assumes "\<And>m t e. (m, t) \<in> set gs \<Longrightarrow> wrapper t (select_mask m cs) = Inl e \<Longrightarrow> e = e0"
    and "\<exists>(m, t) \<in> set gs. count_nonzero m \<noteq> 0 \<and> (\<exists>e. wrapper t (select_mask m cs) = Inl e)"
  shows "eval_groups wrapper cs gs = Inl e0"
  using assms
proof (induction gs)
  case Nil
  then show ?case by simp
next
  case (Cons a gs)
  obtain m t where a: "a = (m, t)" by (cases a)
  have same: "\<And>m t e. (m, t) \<in> set gs \<Longrightarrow> wrapper t (select_mask m cs) = Inl e \<Longrightarrow> e = e0"
  proof -
    fix m' t' e assume "(m', t') \<in> set gs" "wrapper t' (select_mask m' cs) = Inl e"
    with Cons.prems(1) [of m' t' e] show "e = e0" by simp
  qed
  show ?case
  proof (cases "count_nonzero m \<noteq> 0")
    case True
    show ?thesis
    proof (cases "wrapper t (select_mask m cs)")
      case (Inl e)
      with Cons.prems(1) [of m t e] a have "e = e0" by simp
      with Inl True a show ?thesis by simp
    next
      case (Inr vals)
      with Cons.prems(2) a
      have "\<exists>(m, t) \<in> set gs. count_nonzero m \<noteq> 0 \<and> (\<exists>e. wrapper t (select_mask m cs) = Inl e)"
        by auto
      from Cons.IH [OF same this] Inr True a show ?thesis by simp
    qed
  next
    case False
    with Cons.prems(2) a
    have "\<exists>(m, t) \<in> set gs. count_nonzero m \<noteq> 0 \<and> (\<exists>e. wrapper t (select_mask m cs) = Inl e)"
      by auto
    from Cons.IH [OF same this] False a show ?thesis by simp
  qed
qed

lemma eval_groups_no_group:
  "\<forall>(m, t) \<in> set gs. count_nonzero m = 0 \<Longrightarrow> eval_groups wrapper cs gs = Inr []"
  by (induction gs) auto

lemma eval_groups_Inl:
  "eval_groups wrapper cs gs = Inl e \<Longrightarrow>
   \<exists>(m, t) \<in> set gs. count_nonzero m \<noteq> 0 \<and> wrapper t (select_mask m cs) = Inl e"
  by (induction gs) (auto split: if_splits sum.splits)

lemma eval_groups_Inr:
  "eval_groups wrapper cs gs = Inr groups \<Longrightarrow>
   list_all2 (\<lambda>(m, t) (idx, vals). idx = flatnonzero m \<and> wrapper t (select_mask m cs) = Inr vals)
     (filter (\<lambda>(m, t). count_nonzero m \<noteq> 0) gs) groups"
  by (induction gs arbitrary: groups) (auto split: if_splits sum.splits)

lemma concat_map_filter_nonempty:
  "concat (map h (filter (\<lambda>x. h x \<noteq> []) xs)) = concat (map h xs)"
  by (induction xs) auto

lemma flatnonzero_empty_iff: "flatnonzero m = [] \<longleftrightarrow> count_nonzero m = 0"
proof -
  have "flatnonzero m = [] \<longleftrightarrow> length (flatnonzero m) = 0" by simp
  then show ?thesis by (simp only: length_flatnonzero)
qed

lemma concat_flatnonzero_filter:
  "concat (map (\<lambda>(m, t). flatnonzero m) (filter (\<lambda>(m, t). count_nonzero m \<noteq> 0) gs)) =
   concat (map (\<lambda>(m, t). flatnonzero m) gs)"
proof -
  have "filter (\<lambda>(m, t). count_nonzero m \<noteq> 0) gs = filter (\<lambda>x. (\<lambda>(m, t). flatnonzero m) x \<noteq> []) gs"
    by (rule filter_cong) (auto simp: flatnonzero_empty_iff)
  then show ?thesis by (simp add: concat_map_filter_nonempty)
qed

lemma zip_map_same: "zip (map h xs) xs = map (\<lambda>x. (h x, x)) xs"
  by (induction xs) auto

lemma group_idx_alt:
  "group_idx names types = concat (map (\<lambda>name. flatnonzero (map (\<lambda>t. t = name) types)) names)"
  by (simp add: group_idx_def zip_map_same comp_def)

lemma distinct_group_idx: "distinct names \<Longrightarrow> distinct (group_idx names types)"
  unfolding group_idx_alt
  by (rule distinct_concat_key [where k = "\<lambda>i. types ! i"])
     (auto simp: distinct_flatnonzero set_flatnonzero_mask)

lemma set_group_idx:
  "set (group_idx names types) = {i. i < length types \<and> types ! i \<in> set names}"
  by (auto simp: group_idx_alt set_flatnonzero_mask)

lemma length_group_idx:
  "distinct names \<Longrightarrow> length (group_idx names types) = length (filter (\<lambda>t. t \<in> set names) types)"
proof -
  assume d: "distinct names"
  have "length (group_idx names types) = card (set (group_idx names types))"
    using distinct_group_idx [OF d] by (simp add: distinct_card)
  also have "\<dots> = card {i. i < length types \<and> types ! i \<in> set names}"
    by (simp add: set_group_idx)
  also have "\<dots> = length (filter (\<lambda>t. t \<in> set names) types)"
    by (simp add: length_filter_conv_card)
  finally show ?thesis .
qed

section \<open>The partial mode on recognised labels\<close>

lemma distinct_FEATURE_TYPE: "distinct FEATURE_TYPE"
  by (simp add: FEATURE_TYPE_def)

subsection \<open>Errors of the evaluator\<close>

lemma ii_at_Inl: "ii_at ii i j = Inl e \<Longrightarrow> e = IndexError"
  by (simp add: ii_at_def split: if_splits)

lemma integrate_Inl: "integrate ii r0 c0 r1 c1 = Inl e \<Longrightarrow> e = IndexError"
  unfolding integrate_def bind_err_def
  by (auto split: sum.splits if_splits dest: ii_at_Inl)

lemma rect_sum_Inl: "rect_sum ii r c rect = Inl e \<Longrightarrow> e = IndexError"
  by (auto simp: rect_sum_def split: prod.splits dest: integrate_Inl)

lemma eval_rects_Inl: "eval_rects ii r c k acc rects = Inl e \<Longrightarrow> e = IndexError"
  by (induction rects arbitrary: k acc) (auto split: sum.splits dest: rect_sum_Inl)

lemma eval_feature_Inl: "eval_feature ii r c feat = Inl e \<Longrightarrow> e = IndexError"
  by (auto simp: eval_feature_def dest: eval_rects_Inl)

lemma all_eval_feature_Inl:
  "all_or_first_error (map (eval_feature ii r c) coord) = Inl e \<Longrightarrow> e = IndexError"
  by (auto dest!: all_or_first_error_Inl dest: eval_feature_Inl [OF sym])

lemma wrapper_Some:
  "haar_like_feature_wrapper ii r c width height feat_t (Some coord) =
     all_or_first_error (map (eval_feature ii r c) coord)"
  by (simp add: haar_like_feature_wrapper_def)

lemma wrapper_Inl:
  "haar_like_feature_wrapper ii r c width height feat_t coord_opt = Inl e \<Longrightarrow> e = IndexError"
  by (auto simp: haar_like_feature_wrapper_def dest: all_eval_feature_Inl)

lemma partial_groups_alt:
  "partial_groups ii r c width height types coord =
     eval_groups
       (\<lambda>feat_t coord. haar_like_feature_wrapper ii r c width height feat_t (Some coord))
       coord (map (\<lambda>name. (map (\<lambda>t. t = name) types, name)) FEATURE_TYPE)"
  by (simp add: partial_groups_def mask_feature_def zip_map_same)

lemma select_mask_subset: "set (select_mask m xs) \<subseteq> set xs"
  by (auto simp: select_mask_def dest: set_zip_rightD)

lemma partial_recognized:
  assumes rec: "set types \<subseteq> set FEATURE_TYPE" and len: "length coord = length types"
  shows "haar_like_feature ii r c width height (Many types) (Some coord) =
           evaluate_in_order ii r c coord"
proof -
  let ?W = "\<lambda>feat_t coord. haar_like_feature_wrapper ii r c width height feat_t (Some coord)"
  let ?mk = "\<lambda>name. map (\<lambda>t. t = name) types"
  let ?gs = "map (\<lambda>name. (?mk name, name)) FEATURE_TYPE"
  let ?f = "eval_feature ii r c"
  let ?names = "filter (\<lambda>name. name \<in> set types) FEATURE_TYPE"
  have filt: "filter (\<lambda>(m, t). count_nonzero m \<noteq> 0) ?gs = map (\<lambda>name. (?mk name, name)) ?names"
  proof -
    have "filter (\<lambda>name. count_nonzero (?mk name) \<noteq> 0) FEATURE_TYPE = ?names"
      by (rule filter_cong) (simp_all only: count_nonzero_mask)
    then show ?thesis by (simp add: filter_map comp_def)
  qed
  have nonempty: "\<exists>(m, t) \<in> set ?gs. count_nonzero m \<noteq> 0 \<and> P m t"
    if "i < length types" "P (?mk (types ! i)) (types ! i)" for i P
  proof -
    from that(1) rec have "types ! i \<in> set FEATURE_TYPE" by auto
    then have "(?mk (types ! i), types ! i) \<in> set ?gs" by auto
    moreover have "count_nonzero (?mk (types ! i)) \<noteq> 0"
      using that(1) by (simp add: count_nonzero_mask_pos)
    ultimately show ?thesis using that(2) by blast
  qed
  show ?thesis
  proof (cases "coord = []")
    case True
    with len have "types = []" by simp
    then have "eval_groups ?W coord ?gs = Inr []"
      by (intro eval_groups_no_group) (auto simp: count_nonzero_def)
    with True len show ?thesis
      by (simp add: haar_like_feature_def partial_groups_alt evaluate_in_order_def)
  next
    case False
    with len have pos: "0 < length types" by auto
    show ?thesis
    proof -
      show ?thesis
      proof (cases "\<exists>x \<in> set coord. \<exists>e. ?f x = Inl e")
        case True
        then obtain i e where i: "i < length coord" "?f (coord ! i) = Inl e"
          by (auto simp: in_set_conv_nth)
        have "eval_groups ?W coord ?gs = Inl IndexError"
        proof (rule eval_groups_error)
          fix m t e assume "?W t (select_mask m coord) = Inl e"
          then show "e = IndexError" by (auto simp: wrapper_Some dest: all_eval_feature_Inl)
        next
          have "\<exists>e. ?W (types ! i) (select_mask (?mk (types ! i)) coord) = Inl e"
          proof -
            have "i \<in> set (flatnonzero (?mk (types ! i)))"
              using i(1) len by (simp add: set_flatnonzero_mask)
            then have "coord ! i \<in> set (select_mask (?mk (types ! i)) coord)"
              using len by (simp add: select_mask_nth)
            with i(2) have "Inl e \<in> set (map ?f (select_mask (?mk (types ! i)) coord))"
              by force
            from all_or_first_error_Inl_ex [OF this] show ?thesis
              by (simp add: wrapper_Some)
          qed
          with nonempty [of i "\<lambda>m t. \<exists>e. ?W t (select_mask m coord) = Inl e"] i(1) len
          show "\<exists>(m, t) \<in> set ?gs. count_nonzero m \<noteq> 0 \<and> (\<exists>e. ?W t (select_mask m coord) = Inl e)"
            by simp
        qed
        moreover have "all_or_first_error (map ?f coord) = Inl IndexError"
        proof -
          from i(1) have "coord ! i \<in> set coord" by simp
          with i(2) have "Inl e \<in> set (map ?f coord)" by force
          from all_or_first_error_Inl_ex [OF this] obtain e' where
            e': "all_or_first_error (map ?f coord) = Inl e'" by blast
          with all_eval_feature_Inl [OF e'] show ?thesis by simp
        qed
        ultimately show ?thesis using False len
          by (simp add: haar_like_feature_def partial_groups_alt evaluate_in_order_def)
      next
        case False
        define g where "g x = (case ?f x of Inr v \<Rightarrow> v | Inl e \<Rightarrow> 0)" for x
        have fg: "?f x = Inr (g x)" if "x \<in> set coord" for x
          using False that by (cases "?f x") (auto simp: g_def)
        have W: "?W t (select_mask m coord) = Inr (map g (select_mask m coord))" for m t
        proof -
          have "all_or_first_error (map ?f (select_mask m coord)) = Inr (map g (select_mask m coord))"
          proof (rule all_or_first_error_defined)
            fix x assume "x \<in> set (select_mask m coord)"
            with select_mask_subset [of m coord] have "x \<in> set coord" by blast
            then show "?f x = Inr (g x)" by (rule fg)
          qed
          then show ?thesis by (simp only: wrapper_Some)
        qed
        let ?G = "\<lambda>i. g (coord ! i)"
        let ?idx = "concat (map (\<lambda>name. flatnonzero (?mk name)) ?names)"
        let ?groups = "map (\<lambda>name. (flatnonzero (?mk name), map g (select_mask (?mk name) coord))) ?names"
        have "eval_groups ?W coord ?gs =
           Inr (map (\<lambda>(m, t). (flatnonzero m, map g (select_mask m coord)))
                  (filter (\<lambda>(m, t). count_nonzero m \<noteq> 0) ?gs))"
          by (rule eval_groups_defined) (rule W)
        also have "map (\<lambda>(m, t). (flatnonzero m, map g (select_mask m coord)))
                  (filter (\<lambda>(m, t). count_nonzero m \<noteq> 0) ?gs) = ?groups"
          unfolding filt by (simp add: comp_def)
        finally have pg: "partial_groups ii r c width height types coord = Inr ?groups"
          by (simp only: partial_groups_alt)
        have sel: "map g (select_mask (?mk name) coord) = map ?G (flatnonzero (?mk name))" for name
          using len by (simp add: select_mask_nth comp_def)
        have names_ne: "?names \<noteq> []"
        proof -
          from pos rec have "types ! 0 \<in> set ?names" by auto
          then show ?thesis by (metis empty_iff empty_set)
        qed
        then have g_ne: "?groups \<noteq> []" by simp
        have cf: "concat (map fst ?groups) = ?idx" by (simp add: comp_def)
        have "concat (map snd ?groups) = concat (map (\<lambda>name. map ?G (flatnonzero (?mk name))) ?names)"
          by (simp add: comp_def sel)
        also have "\<dots> = map ?G ?idx"
          by (simp add: map_concat comp_def)
        finally have cs: "concat (map snd ?groups) = map ?G ?idx" .
        have idx: "?idx = group_idx ?names types" by (simp add: group_idx_alt)
        have d: "distinct ?idx" unfolding idx
          by (rule distinct_group_idx) (simp add: distinct_FEATURE_TYPE)
        have s: "set ?idx = {..<length types}" unfolding idx
          using rec by (auto simp: set_group_idx)
        have l: "length ?idx = length types"
          using d s by (metis card_lessThan distinct_card)
        have "scatter (map ?G ?idx) ?idx (map ?G ?idx) = Inr (map ?G [0..<length types])"
          by (rule scatter_permutation [OF d s]) (simp add: l)
        also have "map ?G [0..<length types] = map g coord"
          by (rule nth_equalityI) (simp_all add: len)
        finally have sc: "scatter (map ?G ?idx) ?idx (map ?G ?idx) = Inr (map g coord)" .
        have rhs: "all_or_first_error (map ?f coord) = Inr (map g coord)"
          by (rule all_or_first_error_defined) (rule fg)
        have "haar_like_feature ii r c width height (Many types) (Some coord) =
                scatter (concat (map snd ?groups)) (concat (map fst ?groups)) (concat (map snd ?groups))"
          using len g_ne by (simp add: haar_like_feature_def pg Let_def del: map_map)
        also have "\<dots> = Inr (map g coord)"
          by (simp only: cf cs sc)
        finally show ?thesis
          using \<open>coord \<noteq> []\<close> rhs by (simp add: evaluate_in_order_def)
      qed
    qed
  qed
qed

section \<open>The model reproduces the recorded outputs\<close>

lemma doc_coord_type_4_reproduced:
  "haar_like_feature_coord 2 2 (Single ''type-4'') = Inr doc_coord_type_4"
  by code_simp

lemma doc_feature_type_3_x_reproduced:
  "haar_like_feature doc_img_ii 0 0 5 5 (Single ''type-3-x'') None = Inr doc_feature_type_3_x"
  by code_simp

lemma doc_feature_subset_reproduced:
  "(case (haar_like_feature_coord 5 5 (Single ''type-2-x''),
          haar_like_feature_coord 5 5 (Single ''type-3-x'')) of
      (Inr (coord_2, type_2), Inr (coord_3, type_3)) \<Rightarrow>
         haar_like_feature doc_img_ii 0 0 5 5
           (Many (every_other type_2 @ every_other type_3))
           (Some (every_other coord_2 @ every_other coord_3))
    | _ \<Rightarrow> Inl NothingToStack) = Inr doc_feature_subset"
  by code_simp

section \<open>Enumeration of the coordinate generator\<close>

text \<open>
  Claim C1, as stated, fails. The two rectangles \<open>rect(0,0 .. 0,0)\<close> and
  \<open>rect(0,1 .. 0,2)\<close> (top-left \<open>(0, 0)\<close>, total width 3, height 1, split at column 1)
  fit in a window of width 5 and height 5, but the generator does not enumerate them:
  it yields 84 features of \<^verbatim>\<open>type-2-x\<close>, where every split point gives 300, and 42
  of \<^verbatim>\<open>type-3-x\<close>, as many as the values that the docstring records.
\<close>

theorem type_2_x_split_counterexample:
  "[((0, 0), (0, 0)), ((0, 1), (0, 2))] \<in> set (spec_two_rect_x 5 5) \<and>
   [((0, 0), (0, 0)), ((0, 1), (0, 2))] \<notin> set (generate_coord 5 5 ''type-2-x'') \<and>
   length (spec_two_rect_x 5 5) = 300 \<and>
   length (generate_coord 5 5 ''type-2-x'') = 84 \<and>
   length (generate_coord 5 5 ''type-3-x'') = 42 \<and>
   length doc_feature_type_3_x = 42"
  by code_simp

text \<open>
  Claim C1, as amended. For every window width and height the generator enumerates,
  with no duplicates and no omissions, one feature for every top-left \<open>(y, x)\<close>,
  every part height \<open>dy\<close> with \<open>1 \<le> dy < height\<close> and every part width \<open>dx\<close> with
  \<open>1 \<le> dx < width\<close> that fit in the window: for \<^verbatim>\<open>type-2-x\<close> two rectangles of the
  same width \<open>dx\<close> side by side (the split is at the middle column only), for
  \<^verbatim>\<open>type-3-x\<close> and \<^verbatim>\<open>type-3-y\<close> three rectangles of the same size, and nothing else.
\<close>

theorem equal_parts_enumeration:
  "distinct (generate_coord width height feat_t) \<and>
   (feat \<in> set (generate_coord width height ''type-2-x'') \<longleftrightarrow>
     (\<exists>y x dy dx. 0 \<le> y \<and> 0 \<le> x \<and> 1 \<le> dy \<and> dy < height \<and> 1 \<le> dx \<and> dx < width \<and>
        y + dy \<le> height \<and> x + 2 * dx \<le> width \<and>
        feat = [((y, x), (y + dy - 1, x + dx - 1)),
                ((y, x + dx), (y + dy - 1, x + 2 * dx - 1))])) \<and>
   (feat \<in> set (generate_coord width height ''type-3-x'') \<longleftrightarrow>
     (\<exists>y x dy dx. 0 \<le> y \<and> 0 \<le> x \<and> 1 \<le> dy \<and> dy < height \<and> 1 \<le> dx \<and> dx < width \<and>
        y + dy \<le> height \<and> x + 3 * dx \<le> width \<and>
        feat = [((y, x), (y + dy - 1, x + dx - 1)),
                ((y, x + dx), (y + dy - 1, x + 2 * dx - 1)),
                ((y, x + 2 * dx), (y + dy - 1, x + 3 * dx - 1))])) \<and>
   (feat \<in> set (generate_coord width height ''type-3-y'') \<longleftrightarrow>
     (\<exists>y x dy dx. 0 \<le> y \<and> 0 \<le> x \<and> 1 \<le> dy \<and> dy < height \<and> 1 \<le> dx \<and> dx < width \<and>
        y + 3 * dy \<le> height \<and> x + dx \<le> width \<and>
        feat = [((y, x), (y + dy - 1, x + dx - 1)),
                ((y + dy, x), (y + 2 * dy - 1, x + dx - 1)),
                ((y + 2 * dy, x), (y + 3 * dy - 1, x + dx - 1))]))"
  using distinct_generate_coord [of width height feat_t]
    mem_generate_coord_type_2_x [of feat width height]
    mem_generate_coord_type_3_x [of feat width height]
    mem_generate_coord_type_3_y [of feat width height]
  by (intro conjI)

theorem equal_parts_enumeration_witness:
  "distinct (generate_coord 3 2 ''type-2-x'') \<and>
   [((0, 1), (0, 1)), ((0, 2), (0, 2))] \<in> set (generate_coord 3 2 ''type-2-x'') \<and>
   [((0, 0), (0, 0)), ((0, 1), (0, 1)), ((0, 2), (0, 2))] \<in> set (generate_coord 3 2 ''type-3-x'')"
proof -
  have a: "\<exists>y x dy dx. (0::int) \<le> y \<and> (0::int) \<le> x \<and> 1 \<le> dy \<and> dy < 2 \<and> 1 \<le> dx \<and> dx < 3 \<and>
        y + dy \<le> 2 \<and> x + 2 * dx \<le> 3 \<and>
        [((0, 1), (0, 1)), ((0, 2), (0, 2))] = [((y, x), (y + dy - 1, x + dx - 1)),
                ((y, x + dx), (y + dy - 1, x + 2 * dx - 1))]"
    by (rule exI [of _ 0], rule exI [of _ 1], rule exI [of _ 1], rule exI [of _ 1]) simp
  have b: "\<exists>y x dy dx. (0::int) \<le> y \<and> (0::int) \<le> x \<and> 1 \<le> dy \<and> dy < 2 \<and> 1 \<le> dx \<and> dx < 3 \<and>
        y + dy \<le> 2 \<and> x + 3 * dx \<le> 3 \<and>
        [((0, 0), (0, 0)), ((0, 1), (0, 1)), ((0, 2), (0, 2))] =
           [((y, x), (y + dy - 1, x + dx - 1)),
            ((y, x + dx), (y + dy - 1, x + 2 * dx - 1)),
            ((y, x + 2 * dx), (y + dy - 1, x + 3 * dx - 1))]"
    by (rule exI [of _ 0], rule exI [of _ 0], rule exI [of _ 1], rule exI [of _ 1]) simp
  from equal_parts_enumeration [of 3 2 "''type-2-x''" "[((0, 1), (0, 1)), ((0, 2), (0, 2))]"] a
  have r1: "distinct (generate_coord 3 2 ''type-2-x'') \<and>
     [((0, 1), (0, 1)), ((0, 2), (0, 2))] \<in> set (generate_coord 3 2 ''type-2-x'')"
    by blast
  from equal_parts_enumeration [of 3 2 "''type-3-x''"
      "[((0, 0), (0, 0)), ((0, 1), (0, 1)), ((0, 2), (0, 2))]"] b
  have r2: "[((0, 0), (0, 0)), ((0, 1), (0, 1)), ((0, 2), (0, 2))] \<in> set (generate_coord 3 2 ''type-3-x'')"
    by blast
  from r1 r2 show ?thesis by blast
qed

text \<open>
  Claim C3, as stated, fails. In a window of width 2 and height 2 the only feature of
  \<^verbatim>\<open>type-4\<close> lists the bottom-right rectangle third and the bottom-left one fourth
  (the listing of \<open>doc_coord_type_4\<close>), not in row-major order.
\<close>

theorem type_4_row_major_counterexample:
  "generate_coord 2 2 ''type-4'' =
     [[((0, 0), (0, 0)), ((0, 1), (0, 1)), ((1, 1), (1, 1)), ((1, 0), (1, 0))]] \<and>
   generate_coord 2 2 ''type-4'' \<noteq>
     [[((0, 0), (0, 0)), ((0, 1), (0, 1)), ((1, 0), (1, 0)), ((1, 1), (1, 1))]]"
  by code_simp

text \<open>
  Claim C3, as amended. Every feature of \<^verbatim>\<open>type-4\<close> consists of 4 rectangles of the
  same size listed clockwise from the top-left one (top-left, top-right, bottom-right,
  bottom-left); signed by the parity of their index they are negative, positive,
  negative, positive, so that the signs form a checkerboard: the value of the feature
  is top-right plus bottom-left minus top-left minus bottom-right.
\<close>

theorem type_4_clockwise_checkerboard:
  assumes "feat \<in> set (generate_coord width height ''type-4'')"
  shows "\<exists>y x dy dx. 0 \<le> y \<and> 0 \<le> x \<and> 1 \<le> dy \<and> 1 \<le> dx \<and>
           y + 2 * dy \<le> height \<and> x + 2 * dx \<le> width \<and>
           feat = [((y, x), (y + dy - 1, x + dx - 1)),
                   ((y, x + dx), (y + dy - 1, x + 2 * dx - 1)),
                   ((y + dy, x + dx), (y + 2 * dy - 1, x + 2 * dx - 1)),
                   ((y + dy, x), (y + 2 * dy - 1, x + dx - 1))] \<and>
           map rect_sign [0..<length feat] = [- 1, 1, - 1, 1] \<and>
           (\<forall>ii r c tl tr br bl.
              map (rect_sum ii r c) feat = map Inr [tl, tr, br, bl] \<longrightarrow>
              eval_feature ii r c feat = Inr (tr + bl - tl - br))"
proof -
  from assms obtain y x dy dx where
    h: "0 \<le> y" "0 \<le> x" "1 \<le> dy" "1 \<le> dx" "y + 2 * dy \<le> height" "x + 2 * dx \<le> width"
       "feat = [((y, x), (y + dy - 1, x + dx - 1)),
                   ((y, x + dx), (y + dy - 1, x + 2 * dx - 1)),
                   ((y + dy, x + dx), (y + 2 * dy - 1, x + 2 * dx - 1)),
                   ((y + dy, x), (y + 2 * dy - 1, x + dx - 1))]"
    unfolding mem_generate_coord_type_4 by blast
  from h(7) have len: "length feat = 4" by simp
  have signs: "map rect_sign [0..<length feat] = [- 1, 1, - 1, 1]"
    unfolding len by (simp add: rect_sign_def upt_rec)
  have ev: "\<forall>ii r c tl tr br bl.
              map (rect_sum ii r c) feat = map Inr [tl, tr, br, bl] \<longrightarrow>
              eval_feature ii r c feat = Inr (tr + bl - tl - br)"
    unfolding h(7) by (simp add: eval_feature_def rect_sign_def)
  show ?thesis
    by (rule exI [of _ y], rule exI [of _ x], rule exI [of _ dy], rule exI [of _ dx])
       (intro conjI h signs ev)
qed

theorem type_4_clockwise_checkerboard_witness:
  "[((0, 0), (0, 0)), ((0, 1), (0, 1)), ((1, 1), (1, 1)), ((1, 0), (1, 0))]
      \<in> set (generate_coord 2 2 ''type-4'') \<and>
   (\<exists>y x dy dx. (0::int) \<le> y \<and> (0::int) \<le> x \<and> (1::int) \<le> dy \<and> (1::int) \<le> dx \<and>
           y + 2 * dy \<le> 2 \<and> x + 2 * dx \<le> 2 \<and>
           [((0, 0), (0, 0)), ((0, 1), (0, 1)), ((1, 1), (1, 1)), ((1, 0), (1, 0))] =
                  [((y, x), (y + dy - 1, x + dx - 1)),
                   ((y, x + dx), (y + dy - 1, x + 2 * dx - 1)),
                   ((y + dy, x + dx), (y + 2 * dy - 1, x + 2 * dx - 1)),
                   ((y + dy, x), (y + 2 * dy - 1, x + dx - 1))] \<and>
           map rect_sign
             [0..<length [((0, 0), (0, 0)), ((0, 1), (0, 1)), ((1, 1), (1, 1)), ((1::int, 0::int), (1::int, 0::int))]] =
             [- 1, 1, - 1, 1] \<and>
           (\<forall>ii r c tl tr br bl.
              map (rect_sum ii r c)
                [((0, 0), (0, 0)), ((0, 1), (0, 1)), ((1, 1), (1, 1)), ((1, 0), (1, 0))] =
                map Inr [tl, tr, br, bl] \<longrightarrow>
              eval_feature ii r c
                [((0, 0), (0, 0)), ((0, 1), (0, 1)), ((1, 1), (1, 1)), ((1, 0), (1, 0))] =
                Inr (tr + bl - tl - br)))"
proof -
  have m: "[((0, 0), (0, 0)), ((0, 1), (0, 1)), ((1, 1), (1, 1)), ((1, 0), (1, 0))]
      \<in> set (generate_coord 2 2 ''type-4'')"
    by code_simp
  show ?thesis
    by (rule conjI [OF m type_4_clockwise_checkerboard [OF m]])
qed

text \<open>
  Claim C9. For a window of width 2 and height 2 and the topology \<^verbatim>\<open>type-4\<close> the
  generator yields exactly one feature, made of the four rectangles of one pixel of the
  window, with signs negative at \<open>(0, 0)\<close> and \<open>(1, 1)\<close> and positive at \<open>(0, 1)\<close> and
  \<open>(1, 0)\<close>.
\<close>

theorem window_2_2_type_4:
  "haar_like_feature_coord 2 2 (Single ''type-4'') =
     Inr ([[((0, 0), (0, 0)), ((0, 1), (0, 1)), ((1, 1), (1, 1)), ((1, 0), (1, 0))]],
          [''type-4'']) \<and>
   map rect_sign [0, 1, 2, 3] = [- 1, 1, - 1, 1]"
  by code_simp

section \<open>Value of a feature\<close>

lemma rect_sign_power: "rect_sign i = (- 1) ^ (i + 1)"
  by (cases "even i") (auto simp: rect_sign_def)

lemma eval_rects_sums:
  "map (rect_sum ii r c) rects = map Inr sums \<Longrightarrow>
   eval_rects ii r c k acc rects = Inr (acc + (\<Sum>i<length sums. rect_sign (k + i) * sums ! i))"
proof (induction rects arbitrary: k acc sums)
  case Nil
  then show ?case by simp
next
  case (Cons rect rects)
  then obtain s ss where sums: "sums = s # ss" "rect_sum ii r c rect = Inr s"
    "map (rect_sum ii r c) rects = map Inr ss"
    by (cases sums) auto
  have "eval_rects ii r c (k + 1) (acc + rect_sign k * s) rects =
          Inr (acc + rect_sign k * s + (\<Sum>i<length ss. rect_sign (k + 1 + i) * ss ! i))"
    by (rule Cons.IH [OF sums(3)])
  moreover have "(\<Sum>i<length (s # ss). rect_sign (k + i) * (s # ss) ! i) =
      rect_sign k * s + (\<Sum>i<length ss. rect_sign (k + 1 + i) * ss ! i)"
    by (simp add: sum.lessThan_Suc_shift del: sum.lessThan_Suc)
  ultimately show ?case using sums by simp
qed

lemma signed_sum_split:
  "(\<Sum>i<n. rect_sign i * f i) =
     (\<Sum>i | i < n \<and> (- 1) ^ (i + 1) = (1::int). f i) -
     (\<Sum>i | i < n \<and> (- 1) ^ (i + 1) = (- 1::int). f i)"
proof -
  have pos: "{i. i < n \<and> (- 1) ^ (i + 1) = (1::int)} = {..<n} \<inter> {i. odd i}"
    by auto
  have neg: "{i. i < n \<and> (- 1) ^ (i + 1) = (- 1::int)} = {..<n} \<inter> - {i. odd i}"
    by auto
  have "(\<Sum>i<n. rect_sign i * f i) = (\<Sum>i<n. if odd i then f i else - f i)"
    by (rule sum.cong) (auto simp: rect_sign_def)
  also have "\<dots> = (\<Sum>i\<in>{..<n} \<inter> {i. odd i}. f i) + (\<Sum>i\<in>{..<n} \<inter> - {i. odd i}. - f i)"
    by (rule sum.If_cases) simp
  also have "\<dots> = (\<Sum>i\<in>{..<n} \<inter> {i. odd i}. f i) - (\<Sum>i\<in>{..<n} \<inter> - {i. odd i}. f i)"
    by (simp add: sum_negf)
  finally show ?thesis by (simp only: pos neg)
qed

lemma eval_feature_sums:
  assumes "map (rect_sum ii r c) feat = map Inr sums"
  shows "eval_feature ii r c feat =
     Inr ((\<Sum>i | i < length sums \<and> (- 1) ^ (i + 1) = (1::int). sums ! i) -
          (\<Sum>i | i < length sums \<and> (- 1) ^ (i + 1) = (- 1::int). sums ! i))"
  using eval_rects_sums [OF assms, of 0 0] signed_sum_split [where n = "length sums" and f = "\<lambda>i. sums ! i"]
  by (simp add: eval_feature_def)

text \<open>
  Claim C2. When the window fits in the integral image and the integral sums of the
  rectangles of every feature are defined, the evaluator returns, for each feature,
  the sum of the integral sums of its positive rectangles minus the sum of those of
  its negative rectangles, the rectangle at index \<open>i\<close> carrying the sign
  \<open>(-1) ^ (i + 1)\<close>.
\<close>

theorem evaluator_positive_minus_negative:
  assumes "window_fits ii r c width height"
    and "\<forall>feat \<in> set coord. map (rect_sum ii r c) feat = map Inr (sums feat)"
  shows "haar_like_feature_wrapper ii r c width height feat_t (Some coord) =
     Inr (map (\<lambda>feat.
            (\<Sum>i | i < length (sums feat) \<and> (- 1) ^ (i + 1) = (1::int). sums feat ! i) -
            (\<Sum>i | i < length (sums feat) \<and> (- 1) ^ (i + 1) = (- 1::int). sums feat ! i))
          coord) \<and>
     (\<forall>i. rect_sign i = (- 1) ^ (i + 1))"
proof -
  have "all_or_first_error (map (eval_feature ii r c) coord) =
     Inr (map (\<lambda>feat.
            (\<Sum>i | i < length (sums feat) \<and> (- 1) ^ (i + 1) = (1::int). sums feat ! i) -
            (\<Sum>i | i < length (sums feat) \<and> (- 1) ^ (i + 1) = (- 1::int). sums feat ! i))
          coord)"
  proof (rule all_or_first_error_defined)
    fix feat assume "feat \<in> set coord"
    with assms(2) have "map (rect_sum ii r c) feat = map Inr (sums feat)" by blast
    then show "eval_feature ii r c feat =
     Inr ((\<Sum>i | i < length (sums feat) \<and> (- 1) ^ (i + 1) = (1::int). sums feat ! i) -
          (\<Sum>i | i < length (sums feat) \<and> (- 1) ^ (i + 1) = (- 1::int). sums feat ! i))"
      by (rule eval_feature_sums)
  qed
  with assms(1) show ?thesis by (simp add: wrapper_Some rect_sign_power)
qed

theorem evaluator_positive_minus_negative_witness:
  "window_fits doc_img_ii 0 0 5 5 \<and>
   map (rect_sum doc_img_ii 0 0) [((0, 0), (1, 0)), ((0, 1), (1, 1))] = map Inr [2, 2] \<and>
   map (rect_sum doc_img_ii 0 0) [((0, 0), (0, 0)), ((0, 1), (0, 1)), ((0, 2), (0, 2))] =
     map Inr [1, 1, 1] \<and>
   haar_like_feature_wrapper doc_img_ii 0 0 5 5 ''type-3-x''
     (Some [[((0, 0), (1, 0)), ((0, 1), (1, 1))],
            [((0, 0), (0, 0)), ((0, 1), (0, 1)), ((0, 2), (0, 2))]]) =
     Inr (map (\<lambda>feat.
            (\<Sum>i | i < length (replicate (length feat) (if length feat = 2 then 2 else 1::int)) \<and>
                   (- 1) ^ (i + 1) = (1::int).
               replicate (length feat) (if length feat = 2 then 2 else 1) ! i) -
            (\<Sum>i | i < length (replicate (length feat) (if length feat = 2 then 2 else 1::int)) \<and>
                   (- 1) ^ (i + 1) = (- 1::int).
               replicate (length feat) (if length feat = 2 then 2 else 1) ! i))
          ([[((0, 0), (1, 0)), ((0, 1), (1, 1))],
            [((0, 0), (0, 0)), ((0, 1), (0, 1)), ((0, 2), (0, 2))]] :: feature list))"
proof -
  let ?coord = "[[((0, 0), (1, 0)), ((0, 1), (1, 1))],
                 [((0, 0), (0, 0)), ((0, 1), (0, 1)), ((0, 2), (0, 2))]] :: feature list"
  let ?sums = "\<lambda>feat :: feature. replicate (length feat) (if length feat = 2 then 2 else 1::int)"
  have fits: "window_fits doc_img_ii 0 0 5 5" by code_simp
  have sums: "\<forall>feat \<in> set ?coord. map (rect_sum doc_img_ii 0 0) feat = map Inr (?sums feat)"
    by code_simp
  have s2: "map (rect_sum doc_img_ii 0 0) [((0, 0), (1, 0)), ((0, 1), (1, 1))] = map Inr [2, 2]"
    by code_simp
  have s3: "map (rect_sum doc_img_ii 0 0) [((0, 0), (0, 0)), ((0, 1), (0, 1)), ((0, 2), (0, 2))] =
     map Inr [1, 1, 1]"
    by code_simp
  show ?thesis
    by (rule conjI [OF fits conjI [OF s2 conjI [OF s3
          conjunct1 [OF evaluator_positive_minus_negative [OF fits sums, of "''type-3-x''"]]]]])
qed

lemma evaluator_example:
  "haar_like_feature_wrapper doc_img_ii 0 0 5 5 ''type-3-x''
     (Some [[((0, 0), (1, 0)), ((0, 1), (1, 1))],
            [((0, 0), (0, 0)), ((0, 1), (0, 1)), ((0, 2), (0, 2))]]) = Inr [0, - 1]"
  by code_simp

section \<open>Partial mode: lengths\<close>

text \<open>
  Claim C7. In the partial mode, coordinates and type labels of different lengths fail
  with \<open>ShapeMismatch\<close>; no value is returned.
\<close>

theorem partial_length_mismatch:
  "length coord \<noteq> length types \<Longrightarrow>
   haar_like_feature ii r c width height (Many types) (Some coord) = Inl ShapeMismatch"
  by (simp add: haar_like_feature_def)

theorem partial_length_mismatch_witness:
  "length [[((0, 0), (0, 0)), ((0, 1), (0, 1))], [((0, 0), (0, 0)), ((0, 1), (0, 1))],
           [((1, 0), (1, 0)), ((1, 1), (1, 1))]] \<noteq> length [''type-2-x'', ''type-2-x''] \<and>
   haar_like_feature doc_img_ii 0 0 2 2 (Many [''type-2-x'', ''type-2-x''])
     (Some [[((0, 0), (0, 0)), ((0, 1), (0, 1))], [((0, 0), (0, 0)), ((0, 1), (0, 1))],
            [((1, 0), (1, 0)), ((1, 1), (1, 1))]]) = Inl ShapeMismatch"
  using partial_length_mismatch [of
      "[[((0, 0), (0, 0)), ((0, 1), (0, 1))], [((0, 0), (0, 0)), ((0, 1), (0, 1))],
        [((1, 0), (1, 0)), ((1, 1), (1, 1))]]" "[''type-2-x'', ''type-2-x'']" doc_img_ii 0 0 2 2]
  by simp

section \<open>Generated coordinates and labels\<close>

lemma check_feature_types_Inr:
  "check_feature_types ts = Inr u \<Longrightarrow> set ts \<subseteq> set FEATURE_TYPE"
  by (induction ts) (auto split: if_splits)

lemma validate_feature_type_Inr:
  "validate_feature_type feature_type = Inr names \<Longrightarrow> set names \<subseteq> set FEATURE_TYPE"
  by (cases feature_type)
     (auto simp: validate_feature_type_def split: sum.splits if_splits
        dest: check_feature_types_Inr)

lemma generated_lengths:
  "length (concat (map fst (map (haar_like_feature_coord_wrapper width height) names))) =
   length (concat (map snd (map (haar_like_feature_coord_wrapper width height) names)))"
  by (induction names) (auto simp: haar_like_feature_coord_wrapper_def Let_def)

lemma generated_labels:
  "set (concat (map snd (map (haar_like_feature_coord_wrapper width height) names))) \<subseteq> set names"
  by (induction names) (auto simp: haar_like_feature_coord_wrapper_def Let_def)

lemma generated_pair:
  assumes "haar_like_feature_coord width height feature_type = Inr (coord, types)"
  shows "set types \<subseteq> set FEATURE_TYPE \<and> length coord = length types"
proof -
  from assms obtain names where
    v: "validate_feature_type feature_type = Inr names"
    and c: "coord = concat (map fst (map (haar_like_feature_coord_wrapper width height) names))"
    and t: "types = concat (map snd (map (haar_like_feature_coord_wrapper width height) names))"
    by (auto simp: haar_like_feature_coord_def Let_def split: sum.splits if_splits)
  from validate_feature_type_Inr [OF v] generated_labels [of width height names] t
  have "set types \<subseteq> set FEATURE_TYPE" by blast
  moreover from c t generated_lengths [of width height names]
  have "length coord = length types" by simp
  ultimately show ?thesis by blast
qed

lemma generated_2_2:
  "haar_like_feature_coord 2 2 Unspecified =
     Inr ([[((0, 0), (0, 0)), ((0, 1), (0, 1))],
           [((1, 0), (1, 0)), ((1, 1), (1, 1))],
           [((0, 0), (0, 0)), ((1, 0), (1, 0))],
           [((0, 1), (0, 1)), ((1, 1), (1, 1))],
           [((0, 0), (0, 0)), ((0, 1), (0, 1)), ((1, 1), (1, 1)), ((1, 0), (1, 0))]],
          [''type-2-x'', ''type-2-x'', ''type-2-y'', ''type-2-y'', ''type-4''])"
  by code_simp

lemma example_values:
  "haar_like_feature example_ii 0 0 2 2 Unspecified None = Inr [1, 1, 2, 2, 0]"
  by code_simp

section \<open>Partial mode: the order of the input\<close>

lemma evaluate_in_order_permuted:
  assumes d: "distinct p" and s: "set p = {..<length coord}"
  shows "evaluate_in_order ii r c (map (\<lambda>i. coord ! i) p) =
         map_sum id (\<lambda>out. map (\<lambda>i. out ! i) p) (evaluate_in_order ii r c coord)"
proof -
  let ?f = "eval_feature ii r c"
  let ?pc = "map (\<lambda>i. coord ! i) p"
  have empty: "?pc = [] \<longleftrightarrow> coord = []"
  proof
    assume "?pc = []"
    then have "p = []" by simp
    with s show "coord = []" by auto
  next
    assume "coord = []"
    with s show "?pc = []" by simp
  qed
  have set_pc: "set ?pc = set coord"
  proof -
    have "set ?pc = (\<lambda>i. coord ! i) ` {..<length coord}" using s by simp
    also have "\<dots> = set coord" by (auto simp: in_set_conv_nth)
    finally show ?thesis .
  qed
  show ?thesis
  proof (cases "coord = []")
    case True
    with empty show ?thesis by (auto simp: evaluate_in_order_def)
  next
    case False
    then have ne: "coord \<noteq> []" "?pc \<noteq> []"
      using empty by auto
    show ?thesis
    proof (cases "\<exists>x \<in> set coord. \<exists>e. ?f x = Inl e")
      case True
      then obtain x e where x: "x \<in> set coord" "?f x = Inl e" by blast
      then have "Inl e \<in> set (map ?f coord)" by force
      from all_or_first_error_Inl_ex [OF this] obtain e1 where
        e1: "all_or_first_error (map ?f coord) = Inl e1" by blast
      from x set_pc have "Inl e \<in> set (map ?f ?pc)" by force
      from all_or_first_error_Inl_ex [OF this] obtain e2 where
        e2: "all_or_first_error (map ?f ?pc) = Inl e2" by blast
      from all_eval_feature_Inl [OF e1] all_eval_feature_Inl [OF e2] e1 e2 ne
      show ?thesis by (simp add: evaluate_in_order_def)
    next
      case False
      define g where "g x = (case ?f x of Inr v \<Rightarrow> v | Inl e \<Rightarrow> 0)" for x
      have fg: "?f x = Inr (g x)" if "x \<in> set coord" for x
        using False that by (cases "?f x") (auto simp: g_def)
      have a: "all_or_first_error (map ?f coord) = Inr (map g coord)"
        by (rule all_or_first_error_defined) (rule fg)
      have b: "all_or_first_error (map ?f ?pc) = Inr (map g ?pc)"
        by (rule all_or_first_error_defined) (use fg set_pc in blast)
      have "map g ?pc = map (\<lambda>i. map g coord ! i) p"
        using s by auto
      with a b ne show ?thesis by (simp add: evaluate_in_order_def)
    qed
  qed
qed

text \<open>
  Claim C4. For a pair of coordinates and labels that \<^verbatim>\<open>haar_like_feature_coord\<close> has
  generated and a permutation \<open>p\<close> of its indices, the partial mode applied to the
  permuted pair returns the result on the unpermuted pair permuted by \<open>p\<close> (and fails
  with the same error when that one fails): the values come back in the order of the
  input, not grouped by type.
\<close>

theorem partial_commutes_with_permutation:
  assumes "haar_like_feature_coord gen_width gen_height feature_type = Inr (coord, types)"
    and "distinct p" and "set p = {..<length coord}"
  shows "haar_like_feature ii r c width height
           (Many (map (\<lambda>i. types ! i) p)) (Some (map (\<lambda>i. coord ! i) p)) =
         map_sum id (\<lambda>out. map (\<lambda>i. out ! i) p)
           (haar_like_feature ii r c width height (Many types) (Some coord))"
proof -
  from generated_pair [OF assms(1)] have rec: "set types \<subseteq> set FEATURE_TYPE"
    and len: "length coord = length types" by blast+
  have rec': "set (map (\<lambda>i. types ! i) p) \<subseteq> set FEATURE_TYPE"
    using rec assms(3) len by auto
  have len': "length (map (\<lambda>i. coord ! i) p) = length (map (\<lambda>i. types ! i) p)" by simp
  show ?thesis
    unfolding partial_recognized [OF rec len] partial_recognized [OF rec' len']
    by (rule evaluate_in_order_permuted [OF assms(2,3)])
qed

theorem partial_commutes_with_permutation_witness:
  "haar_like_feature_coord 2 2 Unspecified =
     Inr ([[((0, 0), (0, 0)), ((0, 1), (0, 1))],
           [((1, 0), (1, 0)), ((1, 1), (1, 1))],
           [((0, 0), (0, 0)), ((1, 0), (1, 0))],
           [((0, 1), (0, 1)), ((1, 1), (1, 1))],
           [((0, 0), (0, 0)), ((0, 1), (0, 1)), ((1, 1), (1, 1)), ((1, 0), (1, 0))]],
          [''type-2-x'', ''type-2-x'', ''type-2-y'', ''type-2-y'', ''type-4'']) \<and>
   distinct [4, 0, 3, 1, 2 :: nat] \<and>
   set [4, 0, 3, 1, 2 :: nat] =
     {..<length [[((0, 0), (0, 0)), ((0, 1), (0, 1))],
           [((1, 0), (1, 0)), ((1, 1), (1, 1))],
           [((0, 0), (0, 0)), ((1, 0), (1, 0))],
           [((0, 1), (0, 1)), ((1, 1), (1, 1))],
           [((0, 0), (0, 0)), ((0, 1), (0, 1)), ((1, 1), (1, 1)), ((1::int, 0::int), (1::int, 0::int))]]} \<and>
   haar_like_feature example_ii 0 0 2 2
     (Many (map (\<lambda>i. [''type-2-x'', ''type-2-x'', ''type-2-y'', ''type-2-y'', ''type-4''] ! i)
              [4, 0, 3, 1, 2]))
     (Some (map (\<lambda>i. [[((0, 0), (0, 0)), ((0, 1), (0, 1))],
           [((1, 0), (1, 0)), ((1, 1), (1, 1))],
           [((0, 0), (0, 0)), ((1, 0), (1, 0))],
           [((0, 1), (0, 1)), ((1, 1), (1, 1))],
           [((0, 0), (0, 0)), ((0, 1), (0, 1)), ((1, 1), (1, 1)), ((1, 0), (1, 0))]] ! i)
              [4, 0, 3, 1, 2])) =
   map_sum id (\<lambda>out. map (\<lambda>i. out ! i) [4, 0, 3, 1, 2])
     (haar_like_feature example_ii 0 0 2 2
        (Many [''type-2-x'', ''type-2-x'', ''type-2-y'', ''type-2-y'', ''type-4''])
        (Some [[((0, 0), (0, 0)), ((0, 1), (0, 1))],
           [((1, 0), (1, 0)), ((1, 1), (1, 1))],
           [((0, 0), (0, 0)), ((1, 0), (1, 0))],
           [((0, 1), (0, 1)), ((1, 1), (1, 1))],
           [((0, 0), (0, 0)), ((0, 1), (0, 1)), ((1, 1), (1, 1)), ((1, 0), (1, 0))]]))"
proof -
  have d: "distinct [4, 0, 3, 1, 2 :: nat]" by simp
  have s: "set [4, 0, 3, 1, 2 :: nat] =
     {..<length [[((0, 0), (0, 0)), ((0, 1), (0, 1))],
           [((1, 0), (1, 0)), ((1, 1), (1, 1))],
           [((0, 0), (0, 0)), ((1, 0), (1, 0))],
           [((0, 1), (0, 1)), ((1, 1), (1, 1))],
           [((0, 0), (0, 0)), ((0, 1), (0, 1)), ((1, 1), (1, 1)), ((1::int, 0::int), (1::int, 0::int))]]}"
    by (auto simp: lessThan_def less_Suc_eq numeral_eq_Suc)
  show ?thesis
    by (rule conjI [OF generated_2_2 conjI [OF d conjI [OF s
          partial_commutes_with_permutation [OF generated_2_2 d s]]]])
qed

lemma permuted_example_values:
  "haar_like_feature example_ii 0 0 2 2
     (Many [''type-4'', ''type-2-x'', ''type-2-y'', ''type-2-x'', ''type-2-y''])
     (Some [[((0, 0), (0, 0)), ((0, 1), (0, 1)), ((1, 1), (1, 1)), ((1, 0), (1, 0))],
            [((0, 0), (0, 0)), ((0, 1), (0, 1))],
            [((0, 1), (0, 1)), ((1, 1), (1, 1))],
            [((1, 0), (1, 0)), ((1, 1), (1, 1))],
            [((0, 0), (0, 0)), ((1, 0), (1, 0))]]) = Inr [0, 1, 2, 1, 2]"
  by code_simp

section \<open>Full mode and partial mode agree\<close>

lemma all_or_first_error_append:
  "all_or_first_error (xs @ ys) =
     (case all_or_first_error xs of
        Inl e \<Rightarrow> Inl e
      | Inr vs \<Rightarrow> (case all_or_first_error ys of Inl e \<Rightarrow> Inl e | Inr ws \<Rightarrow> Inr (vs @ ws)))"
  by (induction xs) (auto split: sum.splits)

lemma all_or_first_error_concat:
  "all_or_first_error (map f (concat xss)) =
     (case all_or_first_error (map (\<lambda>xs. all_or_first_error (map f xs)) xss) of
        Inl e \<Rightarrow> Inl e
      | Inr chunks \<Rightarrow> Inr (concat chunks))"
  by (induction xss) (auto simp: all_or_first_error_append split: sum.splits)

lemma all_or_first_error_length:
  "all_or_first_error ms = Inr vs \<Longrightarrow> length vs = length ms"
  by (simp add: all_or_first_error_Inr_iff)

lemma full_mode_all:
  "haar_like_feature ii r c width height Unspecified None =
     (if concat (map (generate_coord width height) FEATURE_TYPE) = [] then Inl NothingToStack
      else all_or_first_error
             (map (eval_feature ii r c) (concat (map (generate_coord width height) FEATURE_TYPE))))"
proof -
  let ?f = "eval_feature ii r c"
  let ?xss = "map (generate_coord width height) FEATURE_TYPE"
  let ?calls = "map (\<lambda>feat_t. haar_like_feature_wrapper ii r c width height feat_t None)
                  FEATURE_TYPE"
  have F: "haar_like_feature ii r c width height Unspecified None =
     (case all_or_first_error ?calls of
        Inl e \<Rightarrow> Inl e
      | Inr chunks \<Rightarrow> if concat chunks = [] then Inl NothingToStack else Inr (concat chunks))"
    by (simp add: haar_like_feature_def validate_feature_type_def)
  have w: "?calls = map (\<lambda>xs. all_or_first_error (map ?f xs)) ?xss"
    by (simp add: haar_like_feature_wrapper_def)
  show ?thesis
  proof (cases "all_or_first_error ?calls")
    case (Inl e)
    then have a: "all_or_first_error (map ?f (concat ?xss)) = Inl e"
      unfolding w by (simp only: all_or_first_error_concat sum.case)
    have ne: "concat ?xss \<noteq> []"
    proof
      assume e: "concat ?xss = []"
      have "all_or_first_error (map ?f (concat ?xss)) = Inr []"
        by (simp only: e list.map all_or_first_error.simps)
      with a show False by simp
    qed
    show ?thesis unfolding F Inl
      by (simp only: ne a sum.case if_False)
  next
    case (Inr chunks)
    then have a: "all_or_first_error (map ?f (concat ?xss)) = Inr (concat chunks)"
      unfolding w by (simp only: all_or_first_error_concat sum.case)
    from all_or_first_error_length [OF a] have "length (concat chunks) = length (concat ?xss)"
      by simp
    then have e: "(concat chunks = []) = (concat ?xss = [])"
      by (simp only: length_0_conv [symmetric])
    show ?thesis unfolding F Inr
      by (simp only: a e sum.case if_cancel split: if_splits)
  qed
qed

lemma generated_all:
  "haar_like_feature_coord width height Unspecified = Inr (coord, types) \<Longrightarrow>
   coord = concat (map (generate_coord width height) FEATURE_TYPE)"
  by (auto simp: haar_like_feature_coord_def validate_feature_type_def Let_def
        haar_like_feature_coord_wrapper_def comp_def split: if_splits)

lemma mem_not_Nil: "x \<in> set xs \<Longrightarrow> xs \<noteq> []"
  by auto

lemma some_feature_iff:
  "concat (map (generate_coord width height) FEATURE_TYPE) \<noteq> [] \<longleftrightarrow> 2 \<le> width \<and> 2 \<le> height"
proof
  assume "concat (map (generate_coord width height) FEATURE_TYPE) \<noteq> []"
  then obtain feat where "feat \<in> set (concat (map (generate_coord width height) FEATURE_TYPE))"
    by (meson last_in_set)
  then obtain t where "feat \<in> set (generate_coord width height t)" by auto
  then obtain dy dx where "1 \<le> dy" "dy < height" "1 \<le> dx" "dx < width"
    unfolding mem_generate_coord by blast
  then show "2 \<le> width \<and> 2 \<le> height" by simp
next
  assume a: "2 \<le> width \<and> 2 \<le> height"
  have "\<exists>y x dy dx. 0 \<le> y \<and> 0 \<le> x \<and> 1 \<le> dy \<and> dy < height \<and> 1 \<le> dx \<and> dx < width \<and>
        y + dy \<le> height \<and> x + 2 * dx \<le> width \<and>
        [((0, 0), (0, 0)), ((0, 1), (0, 1))] =
           [((y, x), (y + dy - 1, x + dx - 1)), ((y, x + dx), (y + dy - 1, x + 2 * dx - 1))]"
    by (rule exI [of _ 0], rule exI [of _ 0], rule exI [of _ 1], rule exI [of _ 1])
       (use a in simp)
  then have "[((0, 0), (0, 0)), ((0, 1), (0, 1))] \<in> set (generate_coord width height ''type-2-x'')"
    by (simp only: mem_generate_coord_type_2_x)
  then have "[((0, 0), (0, 0)), ((0, 1), (0, 1))] \<in>
      set (concat (map (generate_coord width height) FEATURE_TYPE))"
    by (simp add: FEATURE_TYPE_def)
  then show "concat (map (generate_coord width height) FEATURE_TYPE) \<noteq> []"
    by (rule mem_not_Nil)
qed

text \<open>
  Claim C5. For every integral image and window, the full mode over the five
  topologies and the partial mode applied to the output of the coordinate generator
  for the five topologies return the same result, element for element, whenever the
  window has a feature at all, that is when its width and height are at least 2;
  otherwise there is nothing to evaluate and both calls raise.
\<close>

theorem full_equals_partial_on_generated:
  assumes "haar_like_feature_coord width height Unspecified = Inr (coord, types)"
  shows "(coord \<noteq> [] \<longrightarrow>
            haar_like_feature ii r c width height Unspecified None =
            haar_like_feature ii r c width height (Many types) (Some coord)) \<and>
         (coord = [] \<longrightarrow>
            (\<exists>e. haar_like_feature ii r c width height Unspecified None = Inl e) \<and>
            haar_like_feature ii r c width height (Many types) (Some coord) = Inl NothingToUnpack) \<and>
         (coord \<noteq> [] \<longleftrightarrow> 2 \<le> width \<and> 2 \<le> height)"
proof -
  from generated_pair [OF assms] have rec: "set types \<subseteq> set FEATURE_TYPE"
    and len: "length coord = length types" by blast+
  note c = generated_all [OF assms]
  have p: "haar_like_feature ii r c width height (Many types) (Some coord) =
           evaluate_in_order ii r c coord"
    by (rule partial_recognized [OF rec len])
  have f: "haar_like_feature ii r c width height Unspecified None =
     (if coord = [] then Inl NothingToStack
      else all_or_first_error (map (eval_feature ii r c) coord))"
    unfolding c by (rule full_mode_all)
  have 1: "coord \<noteq> [] \<longrightarrow>
            haar_like_feature ii r c width height Unspecified None =
            haar_like_feature ii r c width height (Many types) (Some coord)"
    unfolding p f by (simp add: evaluate_in_order_def)
  have 2: "coord = [] \<longrightarrow>
            (\<exists>e. haar_like_feature ii r c width height Unspecified None = Inl e) \<and>
            haar_like_feature ii r c width height (Many types) (Some coord) = Inl NothingToUnpack"
    unfolding p f by (simp add: evaluate_in_order_def)
  have 3: "coord \<noteq> [] \<longleftrightarrow> 2 \<le> width \<and> 2 \<le> height"
    unfolding c by (rule some_feature_iff)
  from 1 2 3 show ?thesis by blast
qed

theorem full_equals_partial_on_generated_witness:
  "haar_like_feature_coord 2 2 Unspecified =
     Inr ([[((0, 0), (0, 0)), ((0, 1), (0, 1))],
           [((1, 0), (1, 0)), ((1, 1), (1, 1))],
           [((0, 0), (0, 0)), ((1, 0), (1, 0))],
           [((0, 1), (0, 1)), ((1, 1), (1, 1))],
           [((0, 0), (0, 0)), ((0, 1), (0, 1)), ((1, 1), (1, 1)), ((1, 0), (1, 0))]],
          [''type-2-x'', ''type-2-x'', ''type-2-y'', ''type-2-y'', ''type-4'']) \<and>
   haar_like_feature example_ii 0 0 2 2 Unspecified None =
   haar_like_feature example_ii 0 0 2 2
     (Many [''type-2-x'', ''type-2-x'', ''type-2-y'', ''type-2-y'', ''type-4''])
     (Some [[((0, 0), (0, 0)), ((0, 1), (0, 1))],
           [((1, 0), (1, 0)), ((1, 1), (1, 1))],
           [((0, 0), (0, 0)), ((1, 0), (1, 0))],
           [((0, 1), (0, 1)), ((1, 1), (1, 1))],
           [((0, 0), (0, 0)), ((0, 1), (0, 1)), ((1, 1), (1, 1)), ((1, 0), (1, 0))]])"
proof -
  have ne: "[[((0, 0), (0, 0)), ((0, 1), (0, 1))],
           [((1, 0), (1, 0)), ((1, 1), (1, 1))],
           [((0, 0), (0, 0)), ((1, 0), (1, 0))],
           [((0, 1), (0, 1)), ((1, 1), (1, 1))],
           [((0, 0), (0, 0)), ((0, 1), (0, 1)), ((1, 1), (1, 1)), ((1::int, 0::int), (1::int, 0::int))]] \<noteq> []"
    by simp
  show ?thesis
    by (rule conjI [OF generated_2_2
          mp [OF conjunct1 [OF full_equals_partial_on_generated [OF generated_2_2]] ne]])
qed

section \<open>The window and the integral image\<close>




lemma partial_groups_error:
  "partial_groups ii r c width height types coord = Inl e \<Longrightarrow> e = IndexError"
  unfolding partial_groups_def
  by (auto dest!: eval_groups_Inl dest: wrapper_Inl)





section \<open>Partial mode: labels outside the registry\<close>

lemma list_all2_map_fst:
  "list_all2 R xs ys \<Longrightarrow> (\<And>x y. R x y \<Longrightarrow> fst y = h x) \<Longrightarrow> map fst ys = map h xs"
  by (induction rule: list_all2_induct) auto

lemma list_all2_concat_length:
  "list_all2 R xs ys \<Longrightarrow> (\<And>x y. R x y \<Longrightarrow> length (snd y) = length (fst y)) \<Longrightarrow>
   length (concat (map snd ys)) = length (concat (map fst ys))"
  by (induction rule: list_all2_induct) auto

lemma list_all2_concat_mem:
  "list_all2 R xs ys \<Longrightarrow> v \<in> set (concat (map snd ys)) \<Longrightarrow>
   \<exists>x y. x \<in> set xs \<and> R x y \<and> v \<in> set (snd y)"
proof (induction rule: list_all2_induct)
  case Nil
  then show ?case by simp
next
  case (Cons x xs y ys)
  show ?case
  proof (cases "v \<in> set (snd y)")
    case True
    with Cons.hyps(1) have "x \<in> set (x # xs) \<and> R x y \<and> v \<in> set (snd y)" by simp
    then show ?thesis by blast
  next
    case False
    with Cons.prems have "v \<in> set (concat (map snd ys))" by simp
    from Cons.IH [OF this] obtain x' y' where "x' \<in> set xs" "R x' y'" "v \<in> set (snd y')"
      by blast
    then have "x' \<in> set (x # xs) \<and> R x' y' \<and> v \<in> set (snd y')" by simp
    then show ?thesis by blast
  qed
qed

lemma list_all2_mem:
  "list_all2 R xs ys \<Longrightarrow> list_all2 (\<lambda>x y. x \<in> set xs \<and> R x y) xs ys"
  by (auto simp: list_all2_conv_all_nth)

lemma partial_groups_idx:
  assumes "partial_groups ii r c width height types coord = Inr groups"
  shows "concat (map fst groups) = group_idx FEATURE_TYPE types"
proof -
  let ?W = "\<lambda>feat_t coord. haar_like_feature_wrapper ii r c width height feat_t (Some coord)"
  let ?gs = "zip (mask_feature types) FEATURE_TYPE"
  from assms have "list_all2
      (\<lambda>(m, t) (idx, vals). idx = flatnonzero m \<and> ?W t (select_mask m coord) = Inr vals)
      (filter (\<lambda>(m, t). count_nonzero m \<noteq> 0) ?gs) groups"
    unfolding partial_groups_def by (rule eval_groups_Inr)
  then have "map fst groups =
      map (\<lambda>(m, t). flatnonzero m) (filter (\<lambda>(m, t). count_nonzero m \<noteq> 0) ?gs)"
    by (rule list_all2_map_fst) auto
  then show ?thesis
    by (simp only: concat_flatnonzero_filter group_idx_def mask_feature_def)
qed

lemma partial_groups_vals:
  assumes g: "partial_groups ii r c width height types coord = Inr groups"
    and len: "length coord = length types"
  shows "length (concat (map snd groups)) = length (concat (map fst groups)) \<and>
         (\<forall>v \<in> set (concat (map snd groups)).
            \<exists>i < length types. types ! i \<in> set FEATURE_TYPE \<and>
               eval_feature ii r c (coord ! i) = Inr v)"
proof -
  let ?W = "\<lambda>feat_t coord. haar_like_feature_wrapper ii r c width height feat_t (Some coord)"
  let ?mk = "\<lambda>name. map (\<lambda>t. t = name) types"
  let ?gs = "map (\<lambda>name. (?mk name, name)) FEATURE_TYPE"
  let ?R = "\<lambda>(m, t) (idx, vals). idx = flatnonzero m \<and> ?W t (select_mask m coord) = Inr vals"
  from g have la: "list_all2 ?R (filter (\<lambda>(m, t). count_nonzero m \<noteq> 0) ?gs) groups"
    unfolding partial_groups_alt by (rule eval_groups_Inr)
  have ev: "map (eval_feature ii r c) (map (\<lambda>i. coord ! i) (flatnonzero (?mk t))) = map Inr vals"
    if "?W t (select_mask (?mk t) coord) = Inr vals" for t vals
  proof -
    from that have "all_or_first_error (map (eval_feature ii r c) (select_mask (?mk t) coord)) =
        Inr vals"
      by (simp add: wrapper_Some split: if_splits)
    then have "map (eval_feature ii r c) (select_mask (?mk t) coord) = map Inr vals"
      by (simp only: all_or_first_error_Inr_iff)
    then show ?thesis using len by (simp add: select_mask_nth)
  qed
  have R_len: "length (snd y) = length (fst y)"
    if "x \<in> set ?gs" "?R x y" for x y
  proof -
    obtain m t where x: "x = (m, t)" by (cases x)
    obtain idx vals where y: "y = (idx, vals)" by (cases y)
    from that(1) x have m: "m = ?mk t" by auto
    from that(2) x y m have "idx = flatnonzero (?mk t)" "?W t (select_mask (?mk t) coord) = Inr vals"
      by auto
    with ev [of t vals] have "length vals = length idx"
      by (metis length_map)
    with y show ?thesis by simp
  qed
  have la': "list_all2 (\<lambda>x y. x \<in> set ?gs \<and> ?R x y)
      (filter (\<lambda>(m, t). count_nonzero m \<noteq> 0) ?gs) groups"
    by (rule list_all2_mono [OF list_all2_mem [OF la]]) auto
  have 1: "length (concat (map snd groups)) = length (concat (map fst groups))"
    using la' by (rule list_all2_concat_length) (use R_len in blast)
  have 2: "\<exists>i < length types. types ! i \<in> set FEATURE_TYPE \<and>
               eval_feature ii r c (coord ! i) = Inr v"
    if "v \<in> set (concat (map snd groups))" for v
  proof -
    from list_all2_concat_mem [OF la' that] obtain x y where
      xy: "x \<in> set ?gs" "?R x y" "v \<in> set (snd y)" by blast
    obtain m t where x: "x = (m, t)" by (cases x)
    obtain idx vals where y: "y = (idx, vals)" by (cases y)
    from xy(1) x have m: "m = ?mk t" and t: "t \<in> set FEATURE_TYPE" by auto
    from xy(2) x y m have W: "?W t (select_mask (?mk t) coord) = Inr vals" by auto
    from xy(3) y have "Inr v \<in> set (map Inr vals)" by simp
    with ev [OF W] have "Inr v \<in> set (map (eval_feature ii r c)
        (map (\<lambda>i. coord ! i) (flatnonzero (?mk t))))" by simp
    then obtain i where i: "i \<in> set (flatnonzero (?mk t))"
      "eval_feature ii r c (coord ! i) = Inr v" by auto
    from i(1) have "i < length types" "types ! i = t"
      by (simp_all add: set_flatnonzero_mask)
    with t i(2) show ?thesis by blast
  qed
  from 1 2 show ?thesis by blast
qed

lemma unrecognized_label_dropped:
  "haar_like_feature example_ii 0 0 2 2 (Many [''type-2-y'', ''type-5''])
     (Some [[((0, 0), (0, 0)), ((1, 0), (1, 0))], [((0, 1), (0, 1)), ((1, 1), (1, 1))]]) =
     Inr [2]"
  by code_simp

text \<open>
  Claim C10. In the partial mode the labels are never validated: whatever the labels,
  the call does not fail with \<open>InvalidTopology\<close>. The groups of the partition hold
  exactly the indices of the entries whose label is in the registry, and a returned
  output has one value per such entry, each the value of one of them: entries with
  other labels take no part in it.
\<close>

theorem partial_labels_not_validated:
  "haar_like_feature ii r c width height (Many types) (Some coord) \<noteq>
     Inl (InvalidTopology tok valid) \<and>
   (partial_groups ii r c width height types coord = Inr groups \<longrightarrow>
      set (concat (map fst groups)) = {i. i < length types \<and> types ! i \<in> set FEATURE_TYPE}) \<and>
   (haar_like_feature ii r c width height (Many types) (Some coord) = Inr out \<longrightarrow>
      length out = length (filter (\<lambda>t. t \<in> set FEATURE_TYPE) types) \<and>
      (\<forall>v \<in> set out. \<exists>i < length types. types ! i \<in> set FEATURE_TYPE \<and>
          eval_feature ii r c (coord ! i) = Inr v))"
proof -
  let ?res = "haar_like_feature ii r c width height (Many types) (Some coord)"
  have 1: "?res \<noteq> Inl (InvalidTopology tok valid)"
  proof
    assume a: "?res = Inl (InvalidTopology tok valid)"
    show False
    proof (cases "partial_groups ii r c width height types coord")
      case (Inl e)
      from partial_groups_error [OF Inl] Inl a show False
        by (auto simp: haar_like_feature_def split: if_splits)
    next
      case (Inr groups')
      with a show False
        by (auto simp: haar_like_feature_def Let_def split: if_splits dest: scatter_Inl)
    qed
  qed
  have 2: "partial_groups ii r c width height types coord = Inr groups \<longrightarrow>
      set (concat (map fst groups)) = {i. i < length types \<and> types ! i \<in> set FEATURE_TYPE}"
    by (simp add: partial_groups_idx set_group_idx)
  have 3: "?res = Inr out \<longrightarrow>
      length out = length (filter (\<lambda>t. t \<in> set FEATURE_TYPE) types) \<and>
      (\<forall>v \<in> set out. \<exists>i < length types. types ! i \<in> set FEATURE_TYPE \<and>
          eval_feature ii r c (coord ! i) = Inr v)"
  proof
    assume a: "?res = Inr out"
    then have len: "length coord = length types"
      by (auto simp: haar_like_feature_def split: if_splits)
    from a len obtain groups' where
      g: "partial_groups ii r c width height types coord = Inr groups'"
      and sc: "scatter (concat (map snd groups')) (concat (map fst groups'))
                 (concat (map snd groups')) = Inr out"
      by (auto simp: haar_like_feature_def Let_def split: if_splits sum.splits)
    from scatter_Inr [OF sc] have o: "length out = length (concat (map snd groups'))"
      "set out \<subseteq> set (concat (map snd groups'))" by auto
    from partial_groups_vals [OF g len] have
      v1: "length (concat (map snd groups')) = length (concat (map fst groups'))"
      and v2: "\<forall>v \<in> set (concat (map snd groups')).
            \<exists>i < length types. types ! i \<in> set FEATURE_TYPE \<and>
               eval_feature ii r c (coord ! i) = Inr v" by blast+
    have "length (concat (map fst groups')) = length (filter (\<lambda>t. t \<in> set FEATURE_TYPE) types)"
      by (simp only: partial_groups_idx [OF g] length_group_idx [OF distinct_FEATURE_TYPE])
    with o v1 v2 show "length out = length (filter (\<lambda>t. t \<in> set FEATURE_TYPE) types) \<and>
      (\<forall>v \<in> set out. \<exists>i < length types. types ! i \<in> set FEATURE_TYPE \<and>
          eval_feature ii r c (coord ! i) = Inr v)"
      by auto
  qed
  from 1 2 3 show ?thesis by blast
qed

theorem partial_labels_not_validated_witness:
  "haar_like_feature example_ii 0 0 2 2 (Many [''type-2-y'', ''type-5''])
     (Some [[((0, 0), (0, 0)), ((1, 0), (1, 0))], [((0, 1), (0, 1)), ((1, 1), (1, 1))]]) =
     Inr [2] \<and>
   haar_like_feature example_ii 0 0 2 2 (Many [''type-2-y'', ''type-5''])
     (Some [[((0, 0), (0, 0)), ((1, 0), (1, 0))], [((0, 1), (0, 1)), ((1, 1), (1, 1))]]) \<noteq>
     Inl (InvalidTopology ''type-5'' FEATURE_TYPE) \<and>
   length [2 :: int] = length (filter (\<lambda>t. t \<in> set FEATURE_TYPE) [''type-2-y'', ''type-5''])"
proof -
  note t = partial_labels_not_validated [of example_ii 0 0 2 2 "[''type-2-y'', ''type-5'']"
      "[[((0, 0), (0, 0)), ((1, 0), (1, 0))], [((0, 1), (0, 1)), ((1, 1), (1, 1))]]"
      "''type-5''" FEATURE_TYPE "[]" "[2]"]
  show ?thesis
    by (rule conjI [OF unrecognized_label_dropped conjI [OF conjunct1 [OF t]
          conjunct1 [OF mp [OF conjunct2 [OF conjunct2 [OF t]] unrecognized_label_dropped]]]])
qed

text \<open>
  The scatter of line 214 still indexes with the positions in the whole input: when an
  entry with a label outside the registry precedes one with a label of the registry,
  the index is out of the bounds of the shorter value array; and when no label is in
  the registry there is no group to unpack.
\<close>

lemma unrecognized_label_first:
  "haar_like_feature example_ii 0 0 2 2 (Many [''type-5'', ''type-2-y''])
     (Some [[((0, 0), (0, 0)), ((1, 0), (1, 0))], [((0, 1), (0, 1)), ((1, 1), (1, 1))]]) =
     Inl IndexError"
  by code_simp

lemma unrecognized_labels_only:
  "haar_like_feature example_ii 0 0 2 2 (Many [''type-5''])
     (Some [[((0, 0), (0, 0)), ((1, 0), (1, 0))]]) = Inl NothingToUnpack"
  by code_simp

section \<open>Validation of a topology request\<close>

lemma check_feature_types_ok:
  "set ts \<subseteq> set FEATURE_TYPE \<Longrightarrow> check_feature_types ts = Inr ()"
  by (induction ts) auto

lemma check_feature_types_bad:
  "\<exists>n \<in> set ts. n \<notin> set FEATURE_TYPE \<Longrightarrow>
   \<exists>pre tok post. ts = pre @ tok # post \<and> set pre \<subseteq> set FEATURE_TYPE \<and>
      tok \<notin> set FEATURE_TYPE \<and>
      check_feature_types ts = Inl (InvalidTopology tok FEATURE_TYPE)"
proof (induction ts)
  case Nil
  then show ?case by simp
next
  case (Cons t ts)
  show ?case
  proof (cases "t \<in> set FEATURE_TYPE")
    case False
    then have "t # ts = [] @ t # ts \<and> set [] \<subseteq> set FEATURE_TYPE \<and> t \<notin> set FEATURE_TYPE
       \<and> check_feature_types (t # ts) = Inl (InvalidTopology t FEATURE_TYPE)"
      by simp
    then show ?thesis by blast
  next
    case True
    with Cons.prems have "\<exists>n \<in> set ts. n \<notin> set FEATURE_TYPE" by auto
    from Cons.IH [OF this] obtain pre tok post where
      h: "ts = pre @ tok # post" "set pre \<subseteq> set FEATURE_TYPE" "tok \<notin> set FEATURE_TYPE"
         "check_feature_types ts = Inl (InvalidTopology tok FEATURE_TYPE)"
      by blast
    from h True have "t # ts = (t # pre) @ tok # post \<and> set (t # pre) \<subseteq> set FEATURE_TYPE
       \<and> tok \<notin> set FEATURE_TYPE
       \<and> check_feature_types (t # ts) = Inl (InvalidTopology tok FEATURE_TYPE)"
      by simp
    then show ?thesis by blast
  qed
qed

text \<open>
  Claim C6. An unspecified request is mapped to the five topologies in their canonical
  order. A single name outside the registry fails with \<open>InvalidTopology\<close> carrying that
  name and the whole registry; a sequence holding a name outside the registry fails
  with \<open>InvalidTopology\<close> carrying the first such name and the whole registry. A
  sequence of registered names is returned as it is.
\<close>

theorem validate_feature_type_contract:
  "validate_feature_type Unspecified =
     Inr [''type-2-x'', ''type-2-y'', ''type-3-x'', ''type-3-y'', ''type-4''] \<and>
   (name \<notin> set FEATURE_TYPE \<longrightarrow>
      validate_feature_type (Single name) = Inl (InvalidTopology name FEATURE_TYPE)) \<and>
   ((\<exists>n \<in> set names. n \<notin> set FEATURE_TYPE) \<longrightarrow>
      (\<exists>pre tok post. names = pre @ tok # post \<and> set pre \<subseteq> set FEATURE_TYPE \<and>
         tok \<notin> set FEATURE_TYPE \<and>
         validate_feature_type (Many names) = Inl (InvalidTopology tok FEATURE_TYPE))) \<and>
   (set names \<subseteq> set FEATURE_TYPE \<longrightarrow> validate_feature_type (Many names) = Inr names)"
proof -
  have a: "validate_feature_type Unspecified =
     Inr [''type-2-x'', ''type-2-y'', ''type-3-x'', ''type-3-y'', ''type-4'']"
    by (simp add: validate_feature_type_def FEATURE_TYPE_def)
  have b: "name \<notin> set FEATURE_TYPE \<longrightarrow>
      validate_feature_type (Single name) = Inl (InvalidTopology name FEATURE_TYPE)"
    by (simp add: validate_feature_type_def)
  have c: "(\<exists>n \<in> set names. n \<notin> set FEATURE_TYPE) \<longrightarrow>
      (\<exists>pre tok post. names = pre @ tok # post \<and> set pre \<subseteq> set FEATURE_TYPE \<and>
         tok \<notin> set FEATURE_TYPE \<and>
         validate_feature_type (Many names) = Inl (InvalidTopology tok FEATURE_TYPE))"
  proof
    assume "\<exists>n \<in> set names. n \<notin> set FEATURE_TYPE"
    from check_feature_types_bad [OF this] obtain pre tok post where
      h: "names = pre @ tok # post" "set pre \<subseteq> set FEATURE_TYPE" "tok \<notin> set FEATURE_TYPE"
         "check_feature_types names = Inl (InvalidTopology tok FEATURE_TYPE)"
      by blast
    from h(4) have "validate_feature_type (Many names) = Inl (InvalidTopology tok FEATURE_TYPE)"
      by (simp add: validate_feature_type_def)
    with h(1-3) show "\<exists>pre tok post. names = pre @ tok # post \<and> set pre \<subseteq> set FEATURE_TYPE \<and>
         tok \<notin> set FEATURE_TYPE \<and>
         validate_feature_type (Many names) = Inl (InvalidTopology tok FEATURE_TYPE)"
      by blast
  qed
  have d: "set names \<subseteq> set FEATURE_TYPE \<longrightarrow> validate_feature_type (Many names) = Inr names"
    by (simp add: validate_feature_type_def check_feature_types_ok)
  from a b c d show ?thesis by blast
qed

theorem validate_feature_type_contract_witness:
  "''type-5'' \<notin> set FEATURE_TYPE \<and>
   validate_feature_type (Single ''type-5'') =
     Inl (InvalidTopology ''type-5''
            [''type-2-x'', ''type-2-y'', ''type-3-x'', ''type-3-y'', ''type-4'']) \<and>
   (\<exists>n \<in> set [''type-4'', ''type-5'']. n \<notin> set FEATURE_TYPE) \<and>
   validate_feature_type (Many [''type-4'', ''type-5'']) =
     Inl (InvalidTopology ''type-5''
            [''type-2-x'', ''type-2-y'', ''type-3-x'', ''type-3-y'', ''type-4'']) \<and>
   set [''type-4'', ''type-2-x''] \<subseteq> set FEATURE_TYPE \<and>
   validate_feature_type (Many [''type-4'', ''type-2-x'']) = Inr [''type-4'', ''type-2-x'']"
proof -
  have h1: "''type-5'' \<notin> set FEATURE_TYPE" by (simp add: FEATURE_TYPE_def)
  have h2: "\<exists>n \<in> set [''type-4'', ''type-5'']. n \<notin> set FEATURE_TYPE"
    by (simp add: FEATURE_TYPE_def)
  have h3: "set [''type-4'', ''type-2-x''] \<subseteq> set FEATURE_TYPE" by (simp add: FEATURE_TYPE_def)
  from validate_feature_type_contract [of "''type-5''" "[''type-4'', ''type-5'']"] h1
  have r1: "validate_feature_type (Single ''type-5'') =
     Inl (InvalidTopology ''type-5'' FEATURE_TYPE)" by blast
  from validate_feature_type_contract [of "''type-5''" "[''type-4'', ''type-5'']"] h2
  obtain pre tok post where
    r2: "[''type-4'', ''type-5''] = pre @ tok # post" "set pre \<subseteq> set FEATURE_TYPE"
        "tok \<notin> set FEATURE_TYPE"
        "validate_feature_type (Many [''type-4'', ''type-5'']) =
           Inl (InvalidTopology tok FEATURE_TYPE)"
    by blast
  have "tok = ''type-5''"
  proof -
    from r2(1) have "tok \<in> set [''type-4'', ''type-5'']"
      by (metis in_set_conv_decomp)
    with r2(3) show ?thesis by (auto simp: FEATURE_TYPE_def)
  qed
  with r2(4) have r2': "validate_feature_type (Many [''type-4'', ''type-5'']) =
           Inl (InvalidTopology ''type-5'' FEATURE_TYPE)" by simp
  from validate_feature_type_contract [of "''type-5''" "[''type-4'', ''type-2-x'']"] h3
  have r3: "validate_feature_type (Many [''type-4'', ''type-2-x'']) = Inr [''type-4'', ''type-2-x'']"
    by blast
  from h1 h2 h3 r1 r2' r3 show ?thesis by (simp add: FEATURE_TYPE_def)
qed

end
